theory Spec2Isabelle
  imports Complex_Main "HOL-Library.Word"
begin

section \<open>Strings and regular expressions\<close>

text \<open>
  A string is the list of its UTF-16 code units, which is what a JavaScript string is and
  what its regular expressions (used here without the \<open>u\<close> flag), \<open>split\<close>, \<open>trim\<close>,
  \<open>substring\<close> and \<open>length\<close> work on. A code unit is a 16-bit word; a character
  outside the Basic Multilingual Plane is two of them. So the no-break space U+00A0 is the
  one code unit 160, not its UTF-8 bytes, and the text \<open>how many\<close>, U+00A0, \<open>laptops\<close>
  is \<open>str ''how many'' @ [160] @ str ''laptops''\<close>. \<open>str\<close> turns an ASCII literal of
  the source into such a list.
\<close>

type_synonym codeUnit = "16 word"

type_synonym ustring = "codeUnit list"

definition str :: "string \<Rightarrow> ustring" where
  "str s = map of_char s"

text \<open>
  White space as \<open>\s\<close>, \<open>split(/\s+/)\<close> and \<open>trim\<close> see it: the white-space characters
  and the line terminators of ECMAScript, that is U+0009 to U+000D, U+0020, U+00A0, U+1680,
  U+2000 to U+200A, U+2028, U+2029, U+202F, U+205F, U+3000 and U+FEFF.
\<close>

definition wsUnits :: ustring where
  "wsUnits = [9, 10, 11, 12, 13, 32, 160, 5760,
              8192, 8193, 8194, 8195, 8196, 8197, 8198, 8199, 8200, 8201, 8202,
              8232, 8233, 8239, 8287, 12288, 65279]"

definition isSpace :: "codeUnit \<Rightarrow> bool" where
  "isSpace c = (c \<in> set wsUnits)"

definition isDigit :: "codeUnit \<Rightarrow> bool" where
  "isDigit c = (48 \<le> c \<and> c \<le> 57)"

text \<open>The word characters \<open>[A-Za-z0-9_]\<close>, which decide \<open>\b\<close>.\<close>

definition isWordChar :: "codeUnit \<Rightarrow> bool" where
  "isWordChar c = ((48 \<le> c \<and> c \<le> 57) \<or> (65 \<le> c \<and> c \<le> 90) \<or> c = 95 \<or> (97 \<le> c \<and> c \<le> 122))"

text \<open>
  Under the \<open>i\<close> flag two code units match when their canonical (upper-case) forms are
  the same code unit, and the canonical form of a code unit from 128 on is never below 128.
  Every literal and class of the patterns here is ASCII, so a pattern unit matches an input
  unit exactly when the two are equal up to the case of \<open>A-Z\<close>.
\<close>

definition foldCase :: "codeUnit \<Rightarrow> codeUnit" where
  "foldCase c = (if 65 \<le> c \<and> c \<le> 90 then c + 32 else c)"

text \<open>
  \<open>String.prototype.toLowerCase\<close> on the code units whose lower-case form holds an ASCII
  character: \<open>A-Z\<close>, the Kelvin sign U+212A (to \<open>k\<close>) and U+0130 (to \<open>i\<close>, U+0307). Any
  other letter goes to letters outside ASCII; it is left as it is, which none of the readers
  of a lower-cased string here can tell apart (tests against ASCII patterns, \<open>includes\<close> of
  ASCII keywords, the split on white space, ASCII word lists, the scan for prices).
\<close>

definition lowerUnits :: "codeUnit \<Rightarrow> ustring" where
  "lowerUnits c =
     (if 65 \<le> c \<and> c \<le> 90 then [c + 32]
      else if c = 8490 then [107]
      else if c = 304 then [105, 775]
      else [c])"

definition toLowerCase :: "ustring \<Rightarrow> ustring" where
  "toLowerCase s = concat (map lowerUnits s)"

text \<open>
  The regular expressions of the source use literals, alternation, optional parts,
  repetition of a single character class, \<open>\b\<close>, \<open>^\<close>, \<open>$\<close> and one capture group.
  All of them that contain letters carry the \<open>i\<close> flag, so literals and classes compare
  up to case. \<open>CDot\<close> is \<open>.\<close>: any code unit but the line terminators.
\<close>

datatype cclass = CSpace | CDot | COneOf ustring

datatype rx =
    Lit ustring
  | One cclass
  | Star cclass
  | Plus cclass
  | PlusLazy cclass
  | Opt rx
  | Alt rx rx
  | Seq rx rx
  | WordB
  | Bol
  | Eol
  | Grp rx

text \<open>
  A matcher state: the input consumed so far (reversed), the input left, and the text of
  the capture group once it has closed.
\<close>

type_synonym mstate = "ustring \<times> ustring \<times> ustring option"

fun cc_ok :: "cclass \<Rightarrow> codeUnit \<Rightarrow> bool" where
  "cc_ok CSpace c = isSpace c"
| "cc_ok CDot c = (c \<noteq> 10 \<and> c \<noteq> 13 \<and> c \<noteq> 8232 \<and> c \<noteq> 8233)"
| "cc_ok (COneOf cs) c = (foldCase c \<in> set (map foldCase cs))"

definition advance :: "nat \<Rightarrow> mstate \<Rightarrow> mstate" where
  "advance n st = (case st of (pre, rest, cap) \<Rightarrow> (rev (take n rest) @ pre, drop n rest, cap))"

definition run_len :: "cclass \<Rightarrow> mstate \<Rightarrow> nat" where
  "run_len cc st = (case st of (pre, rest, cap) \<Rightarrow> length (takeWhile (cc_ok cc) rest))"

text \<open>
  \<open>rx_step r st\<close> lists the states in which a match of \<open>r\<close> begun at \<open>st\<close> can end,
  in the order a backtracking matcher tries them (greedy parts longest first, lazy parts
  shortest first, alternatives left to right).
\<close>

fun rx_step :: "rx \<Rightarrow> mstate \<Rightarrow> mstate list" where
  "rx_step (Lit l) st =
     (case st of (pre, rest, cap) \<Rightarrow>
        if length l \<le> length rest \<and> map foldCase (take (length l) rest) = map foldCase l
        then [advance (length l) st] else [])"
| "rx_step (One cc) st = (if 1 \<le> run_len cc st then [advance 1 st] else [])"
| "rx_step (Star cc) st = map (\<lambda>n. advance n st) (rev [0 ..< Suc (run_len cc st)])"
| "rx_step (Plus cc) st = map (\<lambda>n. advance n st) (rev [1 ..< Suc (run_len cc st)])"
| "rx_step (PlusLazy cc) st = map (\<lambda>n. advance n st) [1 ..< Suc (run_len cc st)]"
| "rx_step (Opt r) st = rx_step r st @ [st]"
| "rx_step (Alt r1 r2) st = rx_step r1 st @ rx_step r2 st"
| "rx_step (Seq r1 r2) st = concat (map (rx_step r2) (rx_step r1 st))"
| "rx_step WordB st =
     (case st of (pre, rest, cap) \<Rightarrow>
        if (pre \<noteq> [] \<and> isWordChar (hd pre)) \<noteq> (rest \<noteq> [] \<and> isWordChar (hd rest))
        then [st] else [])"
| "rx_step Bol st = (case st of (pre, rest, cap) \<Rightarrow> if pre = [] then [st] else [])"
| "rx_step Eol st = (case st of (pre, rest, cap) \<Rightarrow> if rest = [] then [st] else [])"
| "rx_step (Grp r) st =
     map (\<lambda>st'. case st' of (pre', rest', cap') \<Rightarrow>
            (pre', rest', Some (take (length (fst (snd st)) - length rest') (fst (snd st)))))
         (rx_step r st)"

text \<open>The leftmost match: every start position in turn, the first result at the first that has one.\<close>

fun rx_search :: "rx \<Rightarrow> ustring \<Rightarrow> ustring \<Rightarrow> mstate option" where
  "rx_search r pre [] = (case rx_step r (pre, [], None) of [] \<Rightarrow> None | st # _ \<Rightarrow> Some st)"
| "rx_search r pre (c # cs) =
     (case rx_step r (pre, c # cs, None) of
        [] \<Rightarrow> rx_search r (c # pre) cs
      | st # _ \<Rightarrow> Some st)"

definition rx_exec :: "rx \<Rightarrow> ustring \<Rightarrow> mstate option" where
  "rx_exec r s = rx_search r [] s"

definition rx_test :: "rx \<Rightarrow> ustring \<Rightarrow> bool" where
  "rx_test r s = (rx_exec r s \<noteq> None)"

text \<open>The patterns are written with the ASCII literals of the source.\<close>

definition lit :: "string \<Rightarrow> rx" where
  "lit w = Lit (str w)"

definition alts :: "string list \<Rightarrow> rx" where
  "alts ws = foldr (\<lambda>w r. Alt (lit w) r) (butlast ws) (lit (last ws))"

definition anyOf :: "rx list \<Rightarrow> rx" where
  "anyOf rs = foldr Alt (butlast rs) (last rs)"

definition seqs :: "rx list \<Rightarrow> rx" where
  "seqs rs = foldr Seq (butlast rs) (last rs)"

text \<open>\<open>name\<close> followed by an optional \<open>s\<close>: the source's \<open>products?\<close>.\<close>

definition plural :: "string \<Rightarrow> rx" where
  "plural w = Seq (lit w) (Opt (lit ''s''))"

definition trim :: "ustring \<Rightarrow> ustring" where
  "trim s = rev (dropWhile isSpace (rev (dropWhile isSpace s)))"

definition str_includes :: "ustring \<Rightarrow> ustring \<Rightarrow> bool" where
  "str_includes s sub = (\<exists>k \<in> set [0 ..< Suc (length s)]. take (length sub) (drop k s) = sub)"

section \<open>Classifier fallback\<close>

text \<open>
  \<open>inferIntentFromKeywords\<close>: the pattern table in the order of the object literal, which
  is the order \<open>Object.entries\<close> walks it.
\<close>

definition intentPatterns :: "(ustring \<times> rx) list" where
  "intentPatterns =
    [(str ''greeting'', Seq Bol (alts [''hi'', ''hello'', ''hey'', ''good morning'', ''good afternoon'', ''good evening''])),
     (str ''product_inquiry'', alts [''looking for'', ''need'', ''want'', ''show me'', ''find'', ''search'', ''recommend'', ''suggest'']),
     (str ''price_question'', alts [''price'', ''cost'', ''how much'', ''expensive'', ''cheap'', ''afford'', ''budget'']),
     (str ''comparison'', alts [''compare'', ''versus'', ''vs'', ''difference'', ''better'', ''best'', ''which'']),
     (str ''purchase_intent'', alts [''buy'', ''purchase'', ''order'', ''checkout'', ''add to cart'']),
     (str ''complaint'', alts [''problem'', ''issue'', ''wrong'', ''broken'', ''defective'', ''return'', ''complaint'']),
     (str ''goodbye'', alts [''bye'', ''goodbye'', ''thanks'', ''thank you'', ''that'' @ [CHR 0x27] @ ''s all''])]"

fun firstIntent :: "(ustring \<times> rx) list \<Rightarrow> ustring \<Rightarrow> ustring" where
  "firstIntent [] lowerMessage = str ''unknown''"
| "firstIntent ((intent, pattern) # entries) lowerMessage =
     (if rx_test pattern lowerMessage then intent else firstIntent entries lowerMessage)"

definition inferIntentFromKeywords :: "ustring \<Rightarrow> ustring" where
  "inferIntentFromKeywords message = firstIntent intentPatterns (toLowerCase message)"

definition positiveWords :: "ustring list" where
  "positiveWords = [str ''good'', str ''great'', str ''excellent'', str ''love'', str ''like'', str ''amazing'', str ''perfect'']"

definition negativeWords :: "ustring list" where
  "negativeWords = [str ''bad'', str ''terrible'', str ''hate'', str ''awful'', str ''disappointed'', str ''wrong'', str ''broken'']"

text \<open>
  \<open>split(/\s+/)\<close>: every maximal run of white space separates two words, so white space at
  either end of the message leaves an empty word there, and the empty message is one empty word.
\<close>

fun splitWs :: "bool \<Rightarrow> ustring \<Rightarrow> ustring \<Rightarrow> ustring list" where
  "splitWs inGap cur [] = [rev cur]"
| "splitWs inGap cur (c # cs) =
     (if isSpace c then (if inGap then splitWs True [] cs else rev cur # splitWs True [] cs)
      else splitWs False (c # cur) cs)"

definition splitWords :: "ustring \<Rightarrow> ustring list" where
  "splitWords s = splitWs False [] s"

definition wordScore :: "ustring \<Rightarrow> int" where
  "wordScore w = (if w \<in> set positiveWords then 1 else 0) - (if w \<in> set negativeWords then 1 else 0)"

definition sentimentScore :: "ustring list \<Rightarrow> int" where
  "sentimentScore ws = foldl (\<lambda>score w. score + wordScore w) 0 ws"

text \<open>The arithmetic is exact here; the source computes the same expression in doubles.\<close>

definition calculateSimpleSentiment :: "ustring \<Rightarrow> rat" where
  "calculateSimpleSentiment message =
     (let ws = splitWords (toLowerCase message);
          score = sentimentScore ws
      in max (-1) (min 1 (of_int score / of_nat (length ws) * 10)))"

section \<open>Data model\<close>

text \<open>An exception carries its message, which is the only part of it the code reads.\<close>

datatype err = Error ustring

fun errMessage :: "err \<Rightarrow> ustring" where
  "errMessage (Error m) = m"

record chatMessage =
  msg_type :: ustring
  msg_content :: ustring

text \<open>
  A catalog product with the fields this service reads. A category is kept by its name
  and an image by its \<open>src\<close>. Fields the code guards with \<open>||\<close> or \<open>?.\<close> are optional.
\<close>

record product =
  prod_id :: ustring
  prod_name :: ustring
  prod_description :: "ustring option"
  prod_shortDescription :: "ustring option"
  prod_price :: rat
  prod_regularPrice :: "rat option"
  prod_salePrice :: "rat option"
  prod_currency :: "ustring option"
  prod_categories :: "ustring list"
  prod_images :: "ustring list"
  prod_averageRating :: "rat option"
  prod_reviewCount :: "rat option"
  prod_stockStatus :: ustring
  prod_permalink :: ustring

record nodeMeta =
  meta_type :: ustring
  meta_id :: "ustring option"
  meta_name :: ustring
  meta_price :: "rat option"
  meta_currency :: "ustring option"
  meta_categories :: "ustring list"
  meta_rating :: "rat option"
  meta_reviewCount :: "rat option"
  meta_inStock :: bool
  meta_permalink :: "ustring option"
  meta_shortDescription :: "ustring option"
  meta_imageUrl :: "ustring option"
  meta_salePrice :: "rat option"
  meta_regularPrice :: "rat option"
  meta_onSale :: bool

record langGraphNode =
  node_id :: ustring
  node_content :: ustring
  node_metadata :: nodeMeta
  node_score :: rat

record productPreferences =
  pref_categories :: "ustring list"
  pref_priceRange :: "(rat \<times> rat) option"
  pref_features :: "ustring list"

record conversationContext =
  ctx_sessionId :: ustring
  ctx_userId :: "ustring option"
  ctx_siteId :: ustring
  ctx_userInterests :: "ustring list"
  ctx_previousMessages :: "chatMessage list"
  ctx_currentIntent :: "ustring option"
  ctx_sentimentHistory :: "rat list"
  ctx_productPreferences :: productPreferences
  ctx_productKnowledge :: "langGraphNode list option"

record requestContext =
  rc_previousMessages :: "chatMessage list option"

record aiRequest =
  req_sessionId :: ustring
  req_userId :: "ustring option"
  req_siteId :: ustring
  req_message :: ustring
  req_context :: "requestContext option"

record entities =
  ent_products :: "ustring list"
  ent_categories :: "ustring list"

text \<open>The classifier's JSON after \<open>JSON.parse\<close>: a field the model left out is \<open>None\<close>.\<close>

record parsedAnalysis =
  pa_intent :: "ustring option"
  pa_sentiment :: "rat option"
  pa_confidence :: "rat option"
  pa_entities :: "entities option"
  pa_urgency :: "ustring option"
  pa_purchaseReadiness :: "ustring option"

record analysis =
  an_intent :: ustring
  an_sentiment :: rat
  an_confidence :: rat
  an_entities :: entities
  an_urgency :: ustring
  an_purchaseReadiness :: ustring

text \<open>An issued coupon is opaque to this service: it is passed on as the issuer returned it.\<close>

datatype coupon = Coupon ustring

record couponParams =
  cp_discountType :: "ustring option"
  cp_amount :: "rat option"
  cp_validityDays :: "nat option"

record eligibility =
  el_eligible :: bool
  el_maxDiscount :: rat

text \<open>Arguments of a function call after \<open>JSON.parse\<close>.\<close>

record callArgs =
  arg_query :: "ustring option"
  arg_category :: "ustring option"
  arg_minPrice :: "rat option"
  arg_maxPrice :: "rat option"
  arg_productId :: "ustring option"
  arg_discountType :: "ustring option"
  arg_amount :: "rat option"
  arg_products :: "ustring list option"
  arg_reason :: "ustring option"

text \<open>
  What the coupon issuer is handed as its third argument: an object literal of this
  service, or the parsed arguments of a native function call, whole.
\<close>

datatype couponArg = CouponParams couponParams | CallArguments callArgs

datatype couponCall =
    EligibilityCheck ustring ustring "ustring option"
  | CouponRequest ustring ustring couponArg

record searchFilters =
  flt_status :: ustring
  flt_minPrice :: "rat option"
  flt_maxPrice :: "rat option"
  flt_category :: "ustring option"

datatype action =
    ShowProducts "product list"
  | GenerateCoupon coupon
  | TransferHuman "ustring option"

record productSummary =
  sum_id :: ustring
  sum_name :: ustring
  sum_price :: rat
  sum_currency :: ustring
  sum_regular_price :: rat
  sum_sale_price :: "rat option"
  sum_on_sale :: bool
  sum_short_description :: ustring
  sum_image_url :: ustring
  sum_permalink :: ustring
  sum_rating :: rat
  sum_rating_html :: "bool list"
  sum_review_count :: rat
  sum_in_stock :: bool
  sum_stock_status :: ustring
  sum_category_list :: "ustring list"
  sum_badge :: ustring
  sum_availability_text :: ustring

record metadata =
  md_tokenUsage :: "nat option"
  md_model :: "ustring option"
  md_processingTime :: "nat option"
  md_fallback :: "bool option"
  md_error :: "ustring option"
  md_totalProductCount :: "nat option"

record aiResponse =
  resp_message :: ustring
  resp_intent :: ustring
  resp_confidence :: rat
  resp_sentiment :: rat
  resp_actions :: "action list"
  resp_metadata :: "metadata option"
  resp_products :: "productSummary list option"
  resp_coupons :: "coupon list option"
  resp_shouldEndConversation :: "bool option"

record functionCall =
  fc_name :: ustring
  fc_arguments :: "err + callArgs"

record completion =
  comp_content :: "ustring option"
  comp_function_call :: "functionCall option"
  comp_total_tokens :: "nat option"

text \<open>
  What the completion provider is sent: the model, the variable parts of the system prompt
  (the fixed guideline text between them is left out), the dialogue turns as (role, content)
  pairs, and whether the function catalog goes natively.
\<close>

record completionRequest =
  cr_model :: ustring
  cr_intent :: ustring
  cr_sentiment :: ustring
  cr_purchaseReadiness :: ustring
  cr_urgency :: ustring
  cr_knowledgeText :: ustring
  cr_functionDescriptions :: "ustring option"
  cr_messages :: "(ustring \<times> ustring) list"
  cr_functions :: bool

text \<open>
  The collaborators of one turn. The cache client catches its own errors (a failed read is
  a miss), so its reads are plain options; every other call either throws or returns.
\<close>

record env =
  cacheGetContext :: "ustring \<Rightarrow> conversationContext option"
  cacheGetNodes :: "ustring \<Rightarrow> langGraphNode list option"
  analysisCompletion :: "ustring \<Rightarrow> conversationContext \<Rightarrow> err + parsedAnalysis"
  chatCompletion :: "completionRequest \<Rightarrow> err + completion"
  searchProductsDb :: "ustring \<Rightarrow> ustring option \<Rightarrow> searchFilters \<Rightarrow> err + product list"
  findBySite :: "ustring \<Rightarrow> err + product list"
  findSortedByName :: "ustring \<Rightarrow> err + product list"
  findOne :: "ustring option \<Rightarrow> ustring \<Rightarrow> err + product option"
  findByCategory :: "ustring \<Rightarrow> ustring \<Rightarrow> err + product list"
  countDocuments :: "ustring \<Rightarrow> err + nat"
  checkCouponEligibility :: "ustring \<Rightarrow> ustring \<Rightarrow> ustring option \<Rightarrow> err + eligibility"
  generateCouponForSession :: "ustring \<Rightarrow> ustring \<Rightarrow> couponArg \<Rightarrow> err + coupon option"
  regExpCompiles :: "ustring \<Rightarrow> bool"
  mathRandom :: real
  dateNow :: nat
  modelName :: ustring
  showNumber :: "rat option \<Rightarrow> ustring"
  base64 :: "ustring \<Rightarrow> ustring"

definition publishFilter :: searchFilters where
  "publishFilter = \<lparr>flt_status = str ''publish'', flt_minPrice = None, flt_maxPrice = None, flt_category = None\<rparr>"

definition joinWith :: "ustring \<Rightarrow> ustring list \<Rightarrow> ustring" where
  "joinWith sep xs = (case xs of [] \<Rightarrow> [] | y # ys \<Rightarrow> foldl (\<lambda>acc x. acc @ sep @ x) y ys)"

text \<open>The distinct elements in the order of their first occurrence, as a \<open>Set\<close> keeps them.\<close>

fun uniqueBy :: "('a \<Rightarrow> 'b) \<Rightarrow> 'b list \<Rightarrow> 'a list \<Rightarrow> 'a list" where
  "uniqueBy f seen [] = []"
| "uniqueBy f seen (x # xs) =
     (if f x \<in> set seen then uniqueBy f seen xs else x # uniqueBy f (f x # seen) xs)"

section \<open>Session context\<close>

definition interestKeywords :: "ustring list" where
  "interestKeywords =
     [str ''electronics'', str ''clothing'', str ''shoes'', str ''books'', str ''home'', str ''garden'',
      str ''sports'', str ''fitness'', str ''beauty'', str ''health'', str ''toys'', str ''automotive'',
      str ''cheap'', str ''expensive'', str ''quality'', str ''durable'', str ''fast'', str ''reliable'']"

definition extractUserInterests :: "chatMessage list \<Rightarrow> ustring list" where
  "extractUserInterests messages =
     uniqueBy id []
       (concat (map (\<lambda>message.
          if msg_type message = str ''user''
          then filter (\<lambda>keyword. str_includes (toLowerCase (msg_content message)) keyword) interestKeywords
          else []) messages))"

definition digitsValue :: "ustring \<Rightarrow> nat" where
  "digitsValue ds = foldl (\<lambda>n d. 10 * n + unat (d - 48)) 0 ds"

text \<open>
  The matches of \<open>/\$?(\d+(?:\.\d{2})?)/g\<close>, each already read as a number
  (36 is \<open>$\<close>, 46 the decimal point, 48 the digit \<open>0\<close>).
\<close>

function priceMatches :: "ustring \<Rightarrow> rat list" where
  "priceMatches [] = []"
| "priceMatches (c # cs) =
     (let s = (if c = 36 then cs else c # cs);
          ds = takeWhile isDigit s;
          rest = dropWhile isDigit s;
          frac = (case rest of
                    d0 # d1 # d2 # _ \<Rightarrow> if d0 = 46 \<and> isDigit d1 \<and> isDigit d2 then [d1, d2] else []
                  | _ \<Rightarrow> [])
      in if ds = [] then priceMatches cs
         else (of_nat (digitsValue ds) + of_nat (digitsValue frac) / 100)
              # priceMatches (drop (if frac = [] then 0 else 3) rest))"
  by pat_completeness auto
termination
proof (relation "measure length", goal_cases)
  case 1
  show ?case by simp
next
  case (2 c cs)
  then show ?case by simp
next
  case (3 c cs s ds rest frac)
  have "length (takeWhile isDigit s) + length (dropWhile isDigit s) = length s"
    by (metis length_append takeWhile_dropWhile_id)
  moreover have "0 < length (takeWhile isDigit s)" using 3 by simp
  ultimately have "length (dropWhile isDigit s) < length s" by linarith
  moreover have "length s \<le> length (c # cs)" using 3 by simp
  ultimately show ?case using 3 by simp
qed

definition priceRangeOf :: "chatMessage \<Rightarrow> (rat \<times> rat) option \<Rightarrow> (rat \<times> rat) option" where
  "priceRangeOf message acc =
     (if msg_type message = str ''user''
      then (let prices = priceMatches (toLowerCase (msg_content message))
            in if 2 \<le> length prices then Some (Min (set prices), Max (set prices)) else acc)
      else acc)"

definition analyzeProductPreferences :: "chatMessage list \<Rightarrow> productPreferences" where
  "analyzeProductPreferences messages =
     \<lparr>pref_categories = [],
      pref_priceRange = foldl (\<lambda>acc message. priceRangeOf message acc) None messages,
      pref_features = []\<rparr>"

text \<open>
  \<open>buildConversationContext\<close>. An array is truthy in JavaScript whatever its length, so the
  test on the request's history asks whether a history was supplied. The returned context
  is also what is written back to the cache.
\<close>

definition requestHistory :: "aiRequest \<Rightarrow> chatMessage list option" where
  "requestHistory request = (case req_context request of None \<Rightarrow> None | Some rc \<Rightarrow> rc_previousMessages rc)"

definition initialContext :: "aiRequest \<Rightarrow> conversationContext" where
  "initialContext request =
     \<lparr>ctx_sessionId = req_sessionId request,
      ctx_userId = req_userId request,
      ctx_siteId = req_siteId request,
      ctx_userInterests = [],
      ctx_previousMessages = (case requestHistory request of Some h \<Rightarrow> h | None \<Rightarrow> []),
      ctx_currentIntent = None,
      ctx_sentimentHistory = [],
      ctx_productPreferences = \<lparr>pref_categories = [], pref_priceRange = None, pref_features = []\<rparr>,
      ctx_productKnowledge = None\<rparr>"

definition buildConversationContext :: "env \<Rightarrow> aiRequest \<Rightarrow> conversationContext" where
  "buildConversationContext e request =
     (let cacheKey = str ''conversation_context:'' @ req_sessionId request;
          context0 = (case cacheGetContext e cacheKey of Some c \<Rightarrow> c | None \<Rightarrow> initialContext request);
          context1 = (case requestHistory request of
                        Some h \<Rightarrow> context0\<lparr>ctx_previousMessages := h\<rparr>
                      | None \<Rightarrow> context0)
      in context1\<lparr>ctx_userInterests := extractUserInterests (ctx_previousMessages context1),
                  ctx_productPreferences := analyzeProductPreferences (ctx_previousMessages context1)\<rparr>)"

section \<open>Classifier\<close>

text \<open>
  \<open>analyzeUserMessage\<close>. The defaults apply to the fields the parsed JSON lacks; the
  spread of the parsed object then puts back every field it has. A failed completion, a
  parse error or a parsed \<open>null\<close> all land in the \<open>catch\<close>.
\<close>

definition analyzeUserMessage :: "env \<Rightarrow> ustring \<Rightarrow> conversationContext \<Rightarrow> analysis" where
  "analyzeUserMessage e message context =
     (case analysisCompletion e message context of
        Inr pa \<Rightarrow>
          \<lparr>an_intent = (case pa_intent pa of Some v \<Rightarrow> v | None \<Rightarrow> str ''unknown''),
           an_sentiment = (case pa_sentiment pa of Some v \<Rightarrow> v | None \<Rightarrow> 0),
           an_confidence = (case pa_confidence pa of Some v \<Rightarrow> v | None \<Rightarrow> 1 / 2),
           an_entities = (case pa_entities pa of Some v \<Rightarrow> v
                          | None \<Rightarrow> \<lparr>ent_products = [], ent_categories = []\<rparr>),
           an_urgency = (case pa_urgency pa of Some v \<Rightarrow> v | None \<Rightarrow> str ''medium''),
           an_purchaseReadiness = (case pa_purchaseReadiness pa of Some v \<Rightarrow> v | None \<Rightarrow> str ''researching'')\<rparr>
      | Inl error \<Rightarrow>
          \<lparr>an_intent = inferIntentFromKeywords message,
           an_sentiment = calculateSimpleSentiment message,
           an_confidence = 3 / 10,
           an_entities = \<lparr>ent_products = [], ent_categories = []\<rparr>,
           an_urgency = str ''medium'',
           an_purchaseReadiness = str ''researching''\<rparr>)"

section \<open>Knowledge retriever\<close>

definition productNouns :: rx where
  "productNouns = anyOf [plural ''product'', plural ''item'', plural ''laptop'', plural ''computer'']"

definition isRequestingAllProducts :: "ustring \<Rightarrow> bool" where
  "isRequestingAllProducts query =
     (rx_test (seqs [WordB, alts [''all'', ''every'', ''entire'', ''complete'', ''whole''], Plus CSpace,
                     anyOf [plural ''product'', lit ''inventory'', lit ''catalog'', plural ''item'',
                            plural ''laptop'', plural ''computer''],
                     WordB]) query
      \<or> rx_test (seqs [WordB, alts [''show'', ''give'', ''list''], Plus CSpace,
                       Opt (Seq (lit ''me'') (Plus CSpace)),
                       alts [''all'', ''every'', ''everything''], WordB]) query
      \<or> rx_test (seqs [WordB, lit ''inventory'', WordB]) query)"

text \<open>
  \<open>ProductService.getAllProducts(siteId, true)\<close>: the published products sorted by name,
  and the empty list when the query throws.
\<close>

definition getAllProducts :: "env \<Rightarrow> ustring \<Rightarrow> product list" where
  "getAllProducts e siteId = (case findSortedByName e siteId of Inl error \<Rightarrow> [] | Inr ps \<Rightarrow> ps)"

definition showText :: "ustring option \<Rightarrow> ustring" where
  "showText v = (case v of Some s \<Rightarrow> s | None \<Rightarrow> str ''undefined'')"

definition truthyText :: "ustring option \<Rightarrow> bool" where
  "truthyText v = (case v of Some s \<Rightarrow> s \<noteq> [] | None \<Rightarrow> False)"

definition truthyNum :: "rat option \<Rightarrow> bool" where
  "truthyNum v = (case v of Some x \<Rightarrow> x \<noteq> 0 | None \<Rightarrow> False)"

definition numOr0 :: "rat option \<Rightarrow> rat" where
  "numOr0 v = (case v of Some x \<Rightarrow> x | None \<Rightarrow> 0)"

definition productNode :: "env \<Rightarrow> product \<Rightarrow> langGraphNode" where
  "productNode e p =
     \<lparr>node_id = prod_id p,
      node_content =
        prod_name p @ str '': '' @ showText (prod_description p) @ str ''. Price: ''
        @ showText (prod_currency p) @ showNumber e (Some (prod_price p)) @ str ''. Categories: ''
        @ joinWith (str '', '') (prod_categories p) @ str ''. Rating: '' @ showNumber e (prod_averageRating p)
        @ str ''/5 ('' @ showNumber e (prod_reviewCount p) @ str '' reviews).'',
      node_metadata =
        \<lparr>meta_type = str ''product'',
         meta_id = Some (prod_id p),
         meta_name = prod_name p,
         meta_price = Some (prod_price p),
         meta_currency = prod_currency p,
         meta_categories = prod_categories p,
         meta_rating = prod_averageRating p,
         meta_reviewCount = prod_reviewCount p,
         meta_inStock = (prod_stockStatus p = str ''instock''),
         meta_permalink = Some (prod_permalink p),
         meta_shortDescription =
           (if truthyText (prod_shortDescription p) then prod_shortDescription p
            else map_option (take 150) (prod_description p)),
         meta_imageUrl = (case prod_images p of [] \<Rightarrow> None | src # _ \<Rightarrow> Some src),
         meta_salePrice = prod_salePrice p,
         meta_regularPrice = prod_regularPrice p,
         meta_onSale =
           (truthyNum (prod_salePrice p)
            \<and> (case (prod_salePrice p, prod_regularPrice p) of
                  (Some s, Some r) \<Rightarrow> s < r | _ \<Rightarrow> False))\<rparr>,
      node_score = 1\<rparr>"

definition categoryNode :: "ustring \<Rightarrow> langGraphNode" where
  "categoryNode category =
     \<lparr>node_id = str ''category_'' @ category,
      node_content = str ''Product category: '' @ category @ str ''. Available products in this category.'',
      node_metadata =
        \<lparr>meta_type = str ''category'', meta_id = None, meta_name = category, meta_price = None,
         meta_currency = None, meta_categories = [], meta_rating = None, meta_reviewCount = None,
         meta_inStock = False, meta_permalink = None, meta_shortDescription = None,
         meta_imageUrl = None, meta_salePrice = None, meta_regularPrice = None, meta_onSale = False\<rparr>,
      node_score = 4 / 5\<rparr>"

definition toNodes :: "env \<Rightarrow> product list \<Rightarrow> langGraphNode list" where
  "toNodes e products =
     map (productNode e) products
     @ map categoryNode (uniqueBy id [] (concat (map prod_categories products)))"

definition knowledgeCacheKey :: "env \<Rightarrow> ustring \<Rightarrow> ustring \<Rightarrow> ustring" where
  "knowledgeCacheKey e query siteId = str ''product_knowledge:'' @ siteId @ str '':'' @ take 20 (base64 e query)"

text \<open>
  The body of the \<open>try\<close> of \<open>getProductKnowledge\<close>; \<open>Inl\<close> is a throw. On a miss the
  nodes returned are also written to the cache under the same key.
\<close>

definition getProductKnowledgeTry :: "env \<Rightarrow> ustring \<Rightarrow> ustring \<Rightarrow> err + langGraphNode list" where
  "getProductKnowledgeTry e query siteId =
     (case cacheGetNodes e (knowledgeCacheKey e query siteId) of
        Some cached \<Rightarrow> Inr cached
      | None \<Rightarrow>
          (case (if isRequestingAllProducts query then Inr (getAllProducts e siteId)
                 else searchProductsDb e siteId (Some query) publishFilter) of
             Inl error \<Rightarrow> Inl error
           | Inr found \<Rightarrow>
               (case (if found = [] then findBySite e siteId else Inr found) of
                  Inl error \<Rightarrow> Inl error
                | Inr products \<Rightarrow> Inr (toNodes e products))))"

definition getProductKnowledge :: "env \<Rightarrow> ustring \<Rightarrow> ustring \<Rightarrow> langGraphNode list" where
  "getProductKnowledge e query siteId =
     (case getProductKnowledgeTry e query siteId of Inl error \<Rightarrow> [] | Inr nodes \<Rightarrow> nodes)"

section \<open>Completion and function calls\<close>

definition buildConversationMessages :: "chatMessage list \<Rightarrow> ustring \<Rightarrow> (ustring \<times> ustring) list" where
  "buildConversationMessages previousMessages currentMessage =
     map (\<lambda>msg. (if msg_type msg = str ''user'' then str ''user'' else str ''assistant'', msg_content msg))
         (drop (length previousMessages - 10) previousMessages)
     @ [(str ''user'', currentMessage)]"

definition getAvailableFunctions :: "(ustring \<times> ustring) list" where
  "getAvailableFunctions =
     [(str ''search_products'', str ''Search for products based on customer query''),
      (str ''get_product_details'', str ''Get detailed information about a specific product''),
      (str ''generate_coupon'', str ''Generate a discount coupon for the customer''),
      (str ''request_human_transfer'', str ''Transfer conversation to a human agent'')]"

text \<open>
  \<open>searchProducts\<close> of the engine: the filters from the call's arguments, and no throw.
  The category filter is \<open>new RegExp(category, 'i')\<close>, which throws on a malformed
  pattern (\<open>regExpCompiles\<close> says whether it compiles); the catalog is then not asked
  and the result is empty.
\<close>

definition searchProducts :: "env \<Rightarrow> callArgs \<Rightarrow> ustring \<Rightarrow> product list" where
  "searchProducts e parameters siteId =
     (let priced = (truthyNum (arg_minPrice parameters) \<or> truthyNum (arg_maxPrice parameters));
          filters =
            \<lparr>flt_status = str ''publish'',
             flt_minPrice = (if priced \<and> truthyNum (arg_minPrice parameters) then arg_minPrice parameters else None),
             flt_maxPrice = (if priced \<and> truthyNum (arg_maxPrice parameters) then arg_maxPrice parameters else None),
             flt_category = (if truthyText (arg_category parameters) then arg_category parameters else None)\<rparr>
      in if truthyText (arg_category parameters) \<and> \<not> regExpCompiles e (the (arg_category parameters))
         then []
         else (case searchProductsDb e siteId (arg_query parameters) filters of
                 Inl error \<Rightarrow> []
               | Inr products \<Rightarrow> products))"

definition noArgs :: callArgs where
  "noArgs = \<lparr>arg_query = None, arg_category = None, arg_minPrice = None, arg_maxPrice = None,
             arg_productId = None, arg_discountType = None, arg_amount = None, arg_products = None,
             arg_reason = None\<rparr>"

text \<open>
  The two functions below return the actions together with the calls they made to the
  coupon collaborator, in order. A throw inside their \<open>try\<close> keeps the actions pushed so far.
\<close>

definition handleFunctionCall ::
  "env \<Rightarrow> functionCall \<Rightarrow> conversationContext \<Rightarrow> action list \<times> couponCall list" where
  "handleFunctionCall e functionCall context =
     (case fc_arguments functionCall of
        Inl error \<Rightarrow> ([], [])
      | Inr parameters \<Rightarrow>
          if fc_name functionCall = str ''search_products''
          then ([ShowProducts (searchProducts e parameters (ctx_siteId context))], [])
          else if fc_name functionCall = str ''get_product_details''
          then (case findOne e (arg_productId parameters) (ctx_siteId context) of
                  Inr (Some product) \<Rightarrow> ([ShowProducts [product]], [])
                | _ \<Rightarrow> ([], []))
          else if fc_name functionCall = str ''generate_coupon''
          then (case generateCouponForSession e (ctx_sessionId context) (ctx_siteId context)
                       (CallArguments parameters) of
                  Inr (Some coupon) \<Rightarrow> [GenerateCoupon coupon]
                | _ \<Rightarrow> [],
                [CouponRequest (ctx_sessionId context) (ctx_siteId context) (CallArguments parameters)])
          else if fc_name functionCall = str ''request_human_transfer''
          then ([TransferHuman (arg_reason parameters)], [])
          else ([], []))"

definition searchPattern :: rx where
  "searchPattern =
     seqs [lit ''search'', One (COneOf (str ''_'' @ wsUnits)), plural ''product'', Star CSpace,
           Opt (One (COneOf (str '':-''))), Star CSpace, Grp (PlusLazy CDot), Alt (Lit [10]) Eol]"

definition couponPattern :: rx where
  "couponPattern =
     anyOf [seqs [lit ''generate'', One (COneOf (str ''_'' @ wsUnits)), lit ''coupon''],
            lit ''discount'', lit ''offer'']"

definition transferPattern :: rx where
  "transferPattern = alts [''transfer'', ''human'', ''agent'', ''representative'']"

definition textCouponParams :: couponParams where
  "textCouponParams =
     \<lparr>cp_discountType = Some (str ''percentage''), cp_amount = Some 10, cp_validityDays = None\<rparr>"

definition stripQuotes :: "ustring \<Rightarrow> ustring" where
  "stripQuotes s = filter (\<lambda>c. c \<noteq> 39 \<and> c \<noteq> 34) s"

definition parseFunctionCallsFromContent ::
  "env \<Rightarrow> ustring \<Rightarrow> conversationContext \<Rightarrow> action list \<times> couponCall list" where
  "parseFunctionCallsFromContent e content context =
     (let searched =
            (case rx_exec searchPattern content of
               Some (pre, rest, Some captured) \<Rightarrow>
                 [ShowProducts (searchProducts e (noArgs\<lparr>arg_query := Some (stripQuotes (trim captured))\<rparr>)
                                               (ctx_siteId context))]
             | _ \<Rightarrow> []);
          transfer =
            (if rx_test transferPattern content
             then [TransferHuman (Some (str ''Customer requested human assistance''))] else [])
      in if rx_test couponPattern content
         then (case generateCouponForSession e (ctx_sessionId context) (ctx_siteId context)
                      (CouponParams textCouponParams) of
                 Inl error \<Rightarrow> searched
               | Inr None \<Rightarrow> searched @ transfer
               | Inr (Some coupon) \<Rightarrow> searched @ [GenerateCoupon coupon] @ transfer,
               [CouponRequest (ctx_sessionId context) (ctx_siteId context) (CouponParams textCouponParams)])
         else (searched @ transfer, []))"

definition sentimentLabel :: "rat \<Rightarrow> ustring" where
  "sentimentLabel x = (if 0 < x then str ''positive'' else if x < 0 then str ''negative'' else str ''neutral'')"

definition apology :: ustring where
  "apology = str ''I apologize, but I encountered an issue. Could you please rephrase your question?''"

definition emptyMetadata :: metadata where
  "emptyMetadata = \<lparr>md_tokenUsage = None, md_model = None, md_processingTime = None,
                     md_fallback = None, md_error = None, md_totalProductCount = None\<rparr>"

text \<open>
  \<open>generateAIResponse\<close> returns the response and the context, which it has changed: the
  retrieved knowledge is stored there for \<open>enhanceResponse\<close>. A failed completion is rethrown.
\<close>

definition generateAIResponse ::
  "env \<Rightarrow> aiRequest \<Rightarrow> conversationContext \<Rightarrow> analysis \<Rightarrow> err + (aiResponse \<times> conversationContext)" where
  "generateAIResponse e request context0 analysis =
     (let productKnowledge = getProductKnowledge e (req_message request) (ctx_siteId context0);
          context = context0\<lparr>ctx_productKnowledge := Some productKnowledge\<rparr>;
          isClaudeModel = str_includes (modelName e) (str ''claude'');
          completionParams =
            \<lparr>cr_model = modelName e,
             cr_intent = an_intent analysis,
             cr_sentiment = sentimentLabel (an_sentiment analysis),
             cr_purchaseReadiness = an_purchaseReadiness analysis,
             cr_urgency = an_urgency analysis,
             cr_knowledgeText = joinWith [10] (map node_content productKnowledge),
             cr_functionDescriptions =
               (if isClaudeModel
                then Some (joinWith [10]
                             (map (\<lambda>(name, description). str ''Function: '' @ name @ str '' - '' @ description)
                                  getAvailableFunctions))
                else None),
             cr_messages = buildConversationMessages (ctx_previousMessages context) (req_message request),
             cr_functions = (\<not> isClaudeModel)\<rparr>
      in case chatCompletion e completionParams of
           Inl error \<Rightarrow> Inl error
         | Inr completion \<Rightarrow>
             (let tokenUsage = (case comp_total_tokens completion of Some n \<Rightarrow> n | None \<Rightarrow> 0);
                  actions =
                    (case comp_function_call completion of
                       Some call \<Rightarrow> fst (handleFunctionCall e call context)
                     | None \<Rightarrow>
                         if isClaudeModel \<and> truthyText (comp_content completion)
                         then fst (parseFunctionCallsFromContent e (the (comp_content completion)) context)
                         else [])
              in Inr (\<lparr>resp_message =
                         (if truthyText (comp_content completion) then the (comp_content completion)
                          else apology),
                       resp_intent = an_intent analysis,
                       resp_confidence = an_confidence analysis,
                       resp_sentiment = an_sentiment analysis,
                       resp_actions = actions,
                       resp_metadata = Some (emptyMetadata\<lparr>md_tokenUsage := Some tokenUsage,
                                                          md_model := Some (modelName e),
                                                          md_processingTime := Some (dateNow e)\<rparr>),
                       resp_products = None,
                       resp_coupons = None,
                       resp_shouldEndConversation = None\<rparr>, context)))"

section \<open>Response enhancement\<close>

text \<open>Running a loop of awaited calls: the first throw ends it.\<close>

fun collectE :: "('a \<Rightarrow> err + 'b list) \<Rightarrow> 'a list \<Rightarrow> err + 'b list" where
  "collectE f [] = Inr []"
| "collectE f (x # xs) =
     (case f x of
        Inl error \<Rightarrow> Inl error
      | Inr ys \<Rightarrow> (case collectE f xs of Inl error \<Rightarrow> Inl error | Inr zs \<Rightarrow> Inr (ys @ zs)))"

definition lastUserMessage :: "chatMessage list \<Rightarrow> chatMessage option" where
  "lastUserMessage messages =
     (case rev (filter (\<lambda>msg. msg_type msg = str ''user'') messages) of [] \<Rightarrow> None | m # _ \<Rightarrow> Some m)"

definition getRelevantProductsTry :: "env \<Rightarrow> analysis \<Rightarrow> conversationContext \<Rightarrow> err + product list" where
  "getRelevantProductsTry e analysis context =
     (let siteId = ctx_siteId context in
      case collectE (\<lambda>productName. searchProductsDb e siteId (Some productName) publishFilter)
                    (ent_products (an_entities analysis)) of
        Inl error \<Rightarrow> Inl error
      | Inr byName \<Rightarrow>
      (case collectE (\<lambda>category. findByCategory e siteId category)
                     (ent_categories (an_entities analysis)) of
        Inl error \<Rightarrow> Inl error
      | Inr byCategory \<Rightarrow>
      (case (if byName @ byCategory = [] \<and> ctx_userInterests context \<noteq> []
             then searchProductsDb e siteId (Some (joinWith (str '' '') (ctx_userInterests context))) publishFilter
             else Inr (byName @ byCategory)) of
        Inl error \<Rightarrow> Inl error
      | Inr products \<Rightarrow>
      (case (if products = [] \<and> (an_intent analysis = str ''unknown'' \<or> an_intent analysis = str ''product_inquiry'')
             then (case lastUserMessage (ctx_previousMessages context) of
                     None \<Rightarrow> Inr products
                   | Some m \<Rightarrow>
                       (case searchProductsDb e siteId (Some (msg_content m)) publishFilter of
                          Inl error \<Rightarrow> Inl error
                        | Inr found \<Rightarrow> if found = [] then findBySite e siteId else Inr found))
             else Inr products) of
        Inl error \<Rightarrow> Inl error
      | Inr products \<Rightarrow> Inr (uniqueBy prod_id [] products)))))"

definition getRelevantProducts :: "env \<Rightarrow> analysis \<Rightarrow> conversationContext \<Rightarrow> product list" where
  "getRelevantProducts e analysis context =
     (case getRelevantProductsTry e analysis context of Inl error \<Rightarrow> [] | Inr products \<Rightarrow> products)"

text \<open>
  \<open>generateCouponIfEligible\<close>, with the calls it made to the coupon collaborator. Every
  throw is caught and gives no coupon.
\<close>

definition eligibleCouponParams :: "eligibility \<Rightarrow> couponParams" where
  "eligibleCouponParams eligibility =
     \<lparr>cp_discountType = Some (str ''percentage''),
      cp_amount = Some (min (el_maxDiscount eligibility) 15),
      cp_validityDays = Some 7\<rparr>"

definition generateCouponIfEligible ::
  "env \<Rightarrow> conversationContext \<Rightarrow> analysis \<Rightarrow> coupon list \<times> couponCall list" where
  "generateCouponIfEligible e context analysis =
     (let check = EligibilityCheck (ctx_sessionId context) (ctx_siteId context) (ctx_userId context) in
      case checkCouponEligibility e (ctx_sessionId context) (ctx_siteId context) (ctx_userId context) of
        Inl error \<Rightarrow> ([], [check])
      | Inr eligibility \<Rightarrow>
          if \<not> el_eligible eligibility then ([], [check])
          else (case generateCouponForSession e (ctx_sessionId context) (ctx_siteId context)
                       (CouponParams (eligibleCouponParams eligibility)) of
                  Inr (Some coupon) \<Rightarrow> [coupon]
                | _ \<Rightarrow> [],
                [check, CouponRequest (ctx_sessionId context) (ctx_siteId context)
                                      (CouponParams (eligibleCouponParams eligibility))]))"

definition isInventoryQuery :: "ustring \<Rightarrow> bool" where
  "isInventoryQuery query =
     rx_test (seqs [WordB, alts [''how many'', ''total'', ''count''], Plus CSpace, productNouns, WordB]) query"

definition isShowAllQuery :: "ustring \<Rightarrow> bool" where
  "isShowAllQuery query =
     rx_test (seqs [WordB, alts [''show'', ''display'', ''see'', ''list''], Plus CSpace,
                    alts [''all'', ''entire'', ''complete'', ''every''], Plus CSpace,
                    anyOf [plural ''product'', plural ''item'', plural ''laptop'', plural ''computer'',
                           lit ''inventory'', lit ''catalog''],
                    WordB]) query"

definition isProductRequest :: "ustring \<Rightarrow> bool" where
  "isProductRequest query =
     rx_test (seqs [WordB, alts [''show'', ''suggest'', ''recommend'', ''find'', ''looking for'', ''need'',
                                 ''want'', ''buy''], Plus CSpace,
                    anyOf [plural ''product'', lit ''laptop'', lit ''computer'', lit ''gaming'', lit ''design''],
                    WordB]) query"

definition isSpecificProductQuery :: "ustring \<Rightarrow> bool" where
  "isSpecificProductQuery query =
     rx_test (seqs [WordB, alts [''asus'', ''msi'', ''lenovo'', ''hp'', ''katana'', ''strix'', ''vivobook'',
                                 ''expertbook'', ''zenbook''], WordB]) query"

text \<open>
  The ranking comparator: a negative result puts \<open>a\<close> first, a positive one \<open>b\<close>.
\<close>

definition compareProducts :: "product \<Rightarrow> product \<Rightarrow> rat" where
  "compareProducts a b =
     (if prod_stockStatus a = str ''instock'' \<and> prod_stockStatus b \<noteq> str ''instock'' then - 1
      else if prod_stockStatus b = str ''instock'' \<and> prod_stockStatus a \<noteq> str ''instock'' then 1
      else (let ratingA = numOr0 (prod_averageRating a);
                ratingB = numOr0 (prod_averageRating b)
            in if ratingA \<noteq> ratingB then ratingB - ratingA
               else (let reviewsA = numOr0 (prod_reviewCount a);
                         reviewsB = numOr0 (prod_reviewCount b)
                     in reviewsB - reviewsA)))"

text \<open>
  \<open>Array.prototype.sort\<close> is a stable sort; for a comparator that is a consistent ordering
  its result is the one stable arrangement, which insertion from the right computes.
\<close>

fun insertSorted :: "('a \<Rightarrow> 'a \<Rightarrow> rat) \<Rightarrow> 'a \<Rightarrow> 'a list \<Rightarrow> 'a list" where
  "insertSorted cmp x [] = [x]"
| "insertSorted cmp x (y # ys) =
     (if cmp x y \<le> 0 then x # y # ys else y # insertSorted cmp x ys)"

definition arraySort :: "('a \<Rightarrow> 'a \<Rightarrow> rat) \<Rightarrow> 'a list \<Rightarrow> 'a list" where
  "arraySort cmp xs = foldr (insertSorted cmp) xs []"

definition prioritize :: "product list \<Rightarrow> product list" where
  "prioritize relevantProducts = arraySort compareProducts relevantProducts"

definition maxProducts :: "ustring \<Rightarrow> nat" where
  "maxProducts query = (if isShowAllQuery query then 12 else if isSpecificProductQuery query then 3 else 6)"

text \<open>
  The display record of a product. The star markup is kept as its five slots (\<open>True\<close> a
  full star); the price markup, a string built from the same fields, is left out.
\<close>

definition toSummary :: "product \<Rightarrow> productSummary" where
  "toSummary p =
     (let salePrice = (case prod_salePrice p of Some s \<Rightarrow> if 0 < s then Some s else None | None \<Rightarrow> None);
          regularPrice = (if truthyNum (prod_regularPrice p) then numOr0 (prod_regularPrice p) else prod_price p);
          isOnSale = (case salePrice of Some s \<Rightarrow> s < regularPrice | None \<Rightarrow> False);
          rating = numOr0 (prod_averageRating p)
      in \<lparr>sum_id = prod_id p,
          sum_name = prod_name p,
          sum_price = prod_price p,
          sum_currency = (if truthyText (prod_currency p) then the (prod_currency p) else str ''USD''),
          sum_regular_price = regularPrice,
          sum_sale_price = salePrice,
          sum_on_sale = isOnSale,
          sum_short_description =
            (if truthyText (prod_shortDescription p) then the (prod_shortDescription p)
             else (case prod_description p of Some d \<Rightarrow> take 180 d | None \<Rightarrow> [])),
          sum_image_url =
            (case prod_images p of [] \<Rightarrow> str ''/wp-content/uploads/woocommerce-placeholder.png'' | src # _ \<Rightarrow> src),
          sum_permalink = prod_permalink p,
          sum_rating = rating,
          sum_rating_html = map (\<lambda>i. int i < \<lfloor>rating\<rfloor>) [0 ..< 5],
          sum_review_count = numOr0 (prod_reviewCount p),
          sum_in_stock = (prod_stockStatus p = str ''instock''),
          sum_stock_status = prod_stockStatus p,
          sum_category_list = prod_categories p,
          sum_badge = (if isOnSale then str ''Sale''
                       else if prod_stockStatus p \<noteq> str ''instock'' then str ''Out of Stock'' else []),
          sum_availability_text = (if prod_stockStatus p = str ''instock'' then str ''In Stock'' else str ''Out of Stock'')\<rparr>)"

definition hasProductKnowledge :: "conversationContext \<Rightarrow> bool" where
  "hasProductKnowledge context =
     (case ctx_productKnowledge context of
        None \<Rightarrow> False
      | Some nodes \<Rightarrow> list_ex (\<lambda>node. meta_type (node_metadata node) = str ''product'') nodes)"

definition knowledgeProductIds :: "conversationContext \<Rightarrow> ustring list" where
  "knowledgeProductIds context =
     (case ctx_productKnowledge context of
        None \<Rightarrow> []
      | Some nodes \<Rightarrow>
          concat (map (\<lambda>node. case meta_id (node_metadata node) of
                                 Some i \<Rightarrow> if i \<noteq> [] then [i] else []
                               | None \<Rightarrow> [])
                      (filter (\<lambda>node. meta_type (node_metadata node) = str ''product'') nodes)))"

definition shouldIncludeProducts :: "conversationContext \<Rightarrow> analysis \<Rightarrow> ustring \<Rightarrow> bool" where
  "shouldIncludeProducts context analysis query =
     (isProductRequest query \<or> isShowAllQuery query \<or> hasProductKnowledge context
      \<or> isSpecificProductQuery query
      \<or> an_intent analysis \<in> set [str ''product_inquiry'', str ''comparison'', str ''purchase_intent''])"

text \<open>The product step of \<open>enhanceResponse\<close>: sourcing, ranking, truncation, formatting.\<close>

definition attachProducts ::
  "env \<Rightarrow> aiResponse \<Rightarrow> conversationContext \<Rightarrow> analysis \<Rightarrow> ustring \<Rightarrow> err + aiResponse" where
  "attachProducts e enhanced context analysis query =
     (case (if hasProductKnowledge context
            then collectE (\<lambda>productId.
                    case findOne e (Some productId) (ctx_siteId context) of
                      Inl error \<Rightarrow> Inl error
                    | Inr None \<Rightarrow> Inr []
                    | Inr (Some product) \<Rightarrow> Inr [product])
                  (knowledgeProductIds context)
            else Inr []) of
        Inl error \<Rightarrow> Inl error
      | Inr fetched \<Rightarrow>
          (let relevantProducts = (if fetched = [] then getRelevantProducts e analysis context else fetched)
           in if relevantProducts \<noteq> []
              then Inr (enhanced\<lparr>resp_products :=
                          Some (map toSummary (take (maxProducts query) (prioritize relevantProducts)))\<rparr>)
              else Inr enhanced))"

definition withCoupons :: "env \<Rightarrow> aiResponse \<Rightarrow> conversationContext \<Rightarrow> analysis \<Rightarrow> aiResponse" where
  "withCoupons e enhanced context analysis =
     (if an_intent analysis = str ''purchase_intent'' \<and> an_purchaseReadiness analysis = str ''ready_to_buy''
      then enhanced\<lparr>resp_coupons := Some (fst (generateCouponIfEligible e context analysis))\<rparr>
      else enhanced)"

definition withEndFlag :: "aiResponse \<Rightarrow> analysis \<Rightarrow> aiResponse" where
  "withEndFlag enhanced analysis =
     enhanced\<lparr>resp_shouldEndConversation :=
       Some (an_intent analysis = str ''goodbye''
             \<or> (an_intent analysis = str ''purchase_intent''
                \<and> (case resp_coupons enhanced of Some cs \<Rightarrow> cs \<noteq> [] | None \<Rightarrow> False)))\<rparr>"

text \<open>The body of the \<open>try\<close> of \<open>enhanceResponse\<close>, and the function with its \<open>catch\<close>.\<close>

definition enhanceResponseTry ::
  "env \<Rightarrow> aiResponse \<Rightarrow> conversationContext \<Rightarrow> analysis \<Rightarrow> ustring \<Rightarrow> err + aiResponse" where
  "enhanceResponseTry e response context analysis query =
     (if isInventoryQuery query
      then (case countDocuments e (ctx_siteId context) of
              Inl error \<Rightarrow> Inl error
            | Inr totalProducts \<Rightarrow>
                Inr (response\<lparr>resp_metadata :=
                       Some ((case resp_metadata response of Some m \<Rightarrow> m | None \<Rightarrow> emptyMetadata)
                               \<lparr>md_totalProductCount := Some totalProducts\<rparr>)\<rparr>))
      else (case (if shouldIncludeProducts context analysis query
                  then attachProducts e response context analysis query
                  else Inr response) of
              Inl error \<Rightarrow> Inl error
            | Inr enhanced \<Rightarrow> Inr (withEndFlag (withCoupons e enhanced context analysis) analysis)))"

definition enhanceResponse ::
  "env \<Rightarrow> aiResponse \<Rightarrow> conversationContext \<Rightarrow> analysis \<Rightarrow> ustring \<Rightarrow> aiResponse" where
  "enhanceResponse e response context analysis query =
     (case enhanceResponseTry e response context analysis query of
        Inl error \<Rightarrow> response
      | Inr enhanced \<Rightarrow> enhanced)"

section \<open>The pipeline and its error boundary\<close>

definition fallbackMessages :: "ustring list" where
  "fallbackMessages = map str
     [''I apologize, but I'' @ [CHR 0x27] @ ''m having some technical difficulties right now. Could you please rephrase your question?'',
      ''I'' @ [CHR 0x27] @ ''m sorry, I didn'' @ [CHR 0x27] @ ''t quite understand that. Could you tell me more about what you'' @ [CHR 0x27] @ ''re looking for?'',
      ''Let me help you find what you need. What specific product or information are you looking for today?'',
      ''I'' @ [CHR 0x27] @ ''m here to help you with your shopping needs. What can I assist you with?'']"

text \<open>\<open>Math.random()\<close> is the environment's \<open>mathRandom\<close>, a number in \<open>[0, 1)\<close>.\<close>

definition getFallbackResponse :: "env \<Rightarrow> aiRequest \<Rightarrow> err \<Rightarrow> aiResponse" where
  "getFallbackResponse e request error =
     \<lparr>resp_message = fallbackMessages ! nat \<lfloor>mathRandom e * of_nat (length fallbackMessages)\<rfloor>,
      resp_intent = str ''unknown'',
      resp_confidence = 1 / 10,
      resp_sentiment = 0,
      resp_actions = [],
      resp_metadata = Some (emptyMetadata\<lparr>md_fallback := Some True, md_error := Some (errMessage error)\<rparr>),
      resp_products = None,
      resp_coupons = None,
      resp_shouldEndConversation = None\<rparr>"

text \<open>
  The body of the \<open>try\<close> of \<open>processMessage\<close>. Writing the response to the cache
  (\<open>cacheResponse\<close> catches its own errors) and logging it (the analytics call is not
  awaited) change nothing of what is returned.
\<close>

definition processMessageTry :: "env \<Rightarrow> aiRequest \<Rightarrow> err + aiResponse" where
  "processMessageTry e request =
     (let context = buildConversationContext e request;
          analysis = analyzeUserMessage e (req_message request) context
      in case generateAIResponse e request context analysis of
           Inl error \<Rightarrow> Inl error
         | Inr (aiResponse, context') \<Rightarrow>
             Inr (enhanceResponse e aiResponse context' analysis (req_message request)))"

definition processMessage :: "env \<Rightarrow> aiRequest \<Rightarrow> aiResponse" where
  "processMessage e request =
     (case processMessageTry e request of
        Inl error \<Rightarrow> getFallbackResponse e request error
      | Inr enhancedResponse \<Rightarrow> enhancedResponse)"

section \<open>Auxiliary notions for the proofs and the worked examples\<close>

text \<open>\<open>a\<close> may stand before \<open>b\<close> in the ranking: the comparator does not put \<open>b\<close> first.\<close>

definition le_rank :: "product \<Rightarrow> product \<Rightarrow> bool" where
  "le_rank a b = (compareProducts a b \<le> 0)"

definition sampleProduct :: "ustring \<Rightarrow> ustring \<Rightarrow> rat \<Rightarrow> rat \<Rightarrow> product" where
  "sampleProduct ident stock rating reviews =
     \<lparr>prod_id = ident, prod_name = ident, prod_description = None, prod_shortDescription = None,
      prod_price = 999, prod_regularPrice = None, prod_salePrice = None, prod_currency = Some (str ''USD''),
      prod_categories = [str ''Laptops''], prod_images = [], prod_averageRating = Some rating,
      prod_reviewCount = Some reviews, prod_stockStatus = stock, prod_permalink = str ''/p/'' @ ident\<rparr>"

text \<open>A turn in which every collaborator is down: the cache misses and every call throws.\<close>

definition failingEnv :: env where
  "failingEnv =
     \<lparr>cacheGetContext = (\<lambda>key. None),
      cacheGetNodes = (\<lambda>key. None),
      analysisCompletion = (\<lambda>message context. Inl (Error (str ''classifier down''))),
      chatCompletion = (\<lambda>params. Inl (Error (str ''provider down''))),
      searchProductsDb = (\<lambda>siteId query filters. Inl (Error (str ''catalog down''))),
      findBySite = (\<lambda>siteId. Inl (Error (str ''catalog down''))),
      findSortedByName = (\<lambda>siteId. Inl (Error (str ''catalog down''))),
      findOne = (\<lambda>productId siteId. Inl (Error (str ''catalog down''))),
      findByCategory = (\<lambda>siteId category. Inl (Error (str ''catalog down''))),
      countDocuments = (\<lambda>siteId. Inl (Error (str ''catalog down''))),
      checkCouponEligibility = (\<lambda>sessionId siteId userId. Inl (Error (str ''coupons down''))),
      generateCouponForSession = (\<lambda>sessionId siteId params. Inl (Error (str ''coupons down''))),
      regExpCompiles = (\<lambda>source. True),
      mathRandom = 1 / 2,
      dateNow = 0,
      modelName = str ''gpt-4'',
      showNumber = (\<lambda>v. str ''n''),
      base64 = (\<lambda>s. s)\<rparr>"

definition sampleRequest :: "ustring \<Rightarrow> aiRequest" where
  "sampleRequest message =
     \<lparr>req_sessionId = str ''s1'', req_userId = None, req_siteId = str ''S1'', req_message = message,
      req_context = Some \<lparr>rc_previousMessages = Some []\<rparr>\<rparr>"

definition sampleContext :: conversationContext where
  "sampleContext = initialContext (sampleRequest [])"

definition sampleAnalysis :: "ustring \<Rightarrow> ustring \<Rightarrow> analysis" where
  "sampleAnalysis intent readiness =
     \<lparr>an_intent = intent, an_sentiment = 0, an_confidence = 1 / 2,
      an_entities = \<lparr>ent_products = [], ent_categories = []\<rparr>,
      an_urgency = str ''medium'', an_purchaseReadiness = readiness\<rparr>"

definition sampleResponse :: "ustring \<Rightarrow> aiResponse" where
  "sampleResponse intent =
     \<lparr>resp_message = str ''ok'', resp_intent = intent, resp_confidence = 1 / 2, resp_sentiment = 0,
      resp_actions = [], resp_metadata = Some (emptyMetadata\<lparr>md_tokenUsage := Some 0\<rparr>),
      resp_products = None, resp_coupons = None, resp_shouldEndConversation = None\<rparr>"

text \<open>A context whose retrieved knowledge names the given products, and a catalog that has them.\<close>

definition knownProductsContext :: "ustring list \<Rightarrow> conversationContext" where
  "knownProductsContext ids =
     sampleContext\<lparr>ctx_productKnowledge :=
       Some (map (\<lambda>i. productNode failingEnv (sampleProduct i (str ''instock'') 4 1)) ids)\<rparr>"

definition catalogEnv :: env where
  "catalogEnv =
     failingEnv\<lparr>findOne := (\<lambda>productId siteId.
        Inr (map_option (\<lambda>i. sampleProduct i (str ''instock'') 4 1) productId))\<rparr>"

section \<open>Literals\<close>

lemma unat_of_char: "unat (of_char c :: codeUnit) = of_char c"
proof -
  have "(of_char c :: codeUnit) = of_nat (of_char c)" by (simp add: of_nat_of_char)
  moreover have "(of_char c :: nat) < 2 ^ 16"
    by (rule less_le_trans [OF nat_of_char_less_256]) simp
  ultimately show ?thesis by (simp add: unat_of_nat)
qed

lemma of_char_unit_eq_iff: "((of_char c :: codeUnit) = of_char d) = (c = d)"
proof
  assume "(of_char c :: codeUnit) = of_char d"
  then have "unat (of_char c :: codeUnit) = unat (of_char d :: codeUnit)" by simp
  then show "c = d" by (simp add: unat_of_char)
qed simp

lemma str_eq_iff [simp]: "(str a = str b) = (a = b)"
  by (simp add: str_def inj_map_eq_map inj_on_def of_char_unit_eq_iff)

lemma str_eq_Nil [simp]: "(str a = []) = (a = [])" "([] = str a) = (a = [])"
  by (auto simp: str_def)

section \<open>Properties of the classifier fallback\<close>











section \<open>Properties of the ranking\<close>

lemma le_rank_iff:
  "le_rank a b =
     (if (prod_stockStatus a = str ''instock'') \<noteq> (prod_stockStatus b = str ''instock'')
      then prod_stockStatus a = str ''instock''
      else numOr0 (prod_averageRating b) < numOr0 (prod_averageRating a)
           \<or> (numOr0 (prod_averageRating b) = numOr0 (prod_averageRating a)
              \<and> numOr0 (prod_reviewCount b) \<le> numOr0 (prod_reviewCount a)))"
  unfolding le_rank_def compareProducts_def Let_def by auto

lemma le_rank_total: "\<not> le_rank a b \<Longrightarrow> le_rank b a"
  unfolding le_rank_iff by (auto split: if_splits)

lemma le_rank_trans: "le_rank a b \<Longrightarrow> le_rank b c \<Longrightarrow> le_rank a c"
  unfolding le_rank_iff by (auto split: if_splits)

lemma le_rank_stock:
  "le_rank a b \<Longrightarrow> prod_stockStatus b = str ''instock'' \<Longrightarrow> prod_stockStatus a = str ''instock''"
  unfolding le_rank_iff by (auto split: if_splits)

lemma set_insertSorted: "set (insertSorted cmp x ys) = insert x (set ys)"
  by (induction ys) auto

lemma length_insertSorted: "length (insertSorted cmp x ys) = Suc (length ys)"
  by (induction ys) auto

lemma sorted_insertSorted:
  "sorted_wrt le_rank ys \<Longrightarrow> sorted_wrt le_rank (insertSorted compareProducts x ys)"
proof (induction ys)
  case Nil
  then show ?case by simp
next
  case (Cons y ys)
  show ?case
  proof (cases "compareProducts x y \<le> 0")
    case True
    then have xy: "le_rank x y" by (simp add: le_rank_def)
    then have "\<forall>z \<in> set ys. le_rank x z" using Cons.prems le_rank_trans by auto
    then show ?thesis using True Cons.prems xy by simp
  next
    case False
    then have "le_rank y x" using le_rank_total by (simp add: le_rank_def)
    then show ?thesis using False Cons by (auto simp: set_insertSorted)
  qed
qed

lemma sorted_prioritize: "sorted_wrt le_rank (prioritize xs)"
  unfolding prioritize_def arraySort_def by (induction xs) (auto intro: sorted_insertSorted)

lemma prioritize_sorted_id: "sorted_wrt le_rank xs \<Longrightarrow> prioritize xs = xs"
  unfolding prioritize_def arraySort_def
proof (induction xs)
  case Nil
  then show ?case by simp
next
  case (Cons x xs)
  then have "foldr (insertSorted compareProducts) xs [] = xs" by simp
  then show ?case using Cons.prems by (cases xs) (auto simp: le_rank_def)
qed

lemma set_prioritize: "set (prioritize xs) = set xs"
  unfolding prioritize_def arraySort_def by (induction xs) (auto simp: set_insertSorted)

lemma length_prioritize: "length (prioritize xs) = length xs"
  unfolding prioritize_def arraySort_def by (induction xs) (auto simp: length_insertSorted)

text \<open>
  Claim C4. The ranking used by \<open>enhanceResponse\<close> (in stock before out of stock, then
  the higher average rating, then the higher review count) is a function of the candidate
  list and is idempotent: ranking a ranked list gives the same list. The ranked list is a
  rearrangement of the candidates, and in it no in-stock product stands after a product
  that is not in stock.
\<close>

theorem ranking_idempotent_stock_first:
  "prioritize (prioritize xs) = prioritize xs
   \<and> length (prioritize xs) = length xs
   \<and> set (prioritize xs) = set xs
   \<and> (\<forall>i j. i < j \<and> j < length (prioritize xs)
          \<and> prod_stockStatus (prioritize xs ! j) = str ''instock''
        \<longrightarrow> prod_stockStatus (prioritize xs ! i) = str ''instock'')"
proof (intro conjI allI impI)
  show "prioritize (prioritize xs) = prioritize xs"
    by (rule prioritize_sorted_id [OF sorted_prioritize])
  show "length (prioritize xs) = length xs" by (rule length_prioritize)
  show "set (prioritize xs) = set xs" by (rule set_prioritize)
next
  fix i j
  assume h: "i < j \<and> j < length (prioritize xs)
          \<and> prod_stockStatus (prioritize xs ! j) = str ''instock''"
  then have "le_rank (prioritize xs ! i) (prioritize xs ! j)"
    using sorted_prioritize [of xs] by (simp add: sorted_wrt_nth_less)
  then show "prod_stockStatus (prioritize xs ! i) = str ''instock''"
    using h le_rank_stock by blast
qed

lemma sample_ranking:
  "prioritize [sampleProduct (str ''a'') (str ''outofstock'') 5 90, sampleProduct (str ''b'') (str ''instock'') 3 10,
               sampleProduct (str ''c'') (str ''instock'') 4 2, sampleProduct (str ''d'') (str ''instock'') 4 7]
   = [sampleProduct (str ''d'') (str ''instock'') 4 7, sampleProduct (str ''c'') (str ''instock'') 4 2,
      sampleProduct (str ''b'') (str ''instock'') 3 10, sampleProduct (str ''a'') (str ''outofstock'') 5 90]"
  by (simp add: prioritize_def arraySort_def compareProducts_def sampleProduct_def numOr0_def)

theorem ranking_idempotent_stock_first_witness:
  "prioritize [sampleProduct (str ''d'') (str ''instock'') 4 7, sampleProduct (str ''c'') (str ''instock'') 4 2,
               sampleProduct (str ''b'') (str ''instock'') 3 10, sampleProduct (str ''a'') (str ''outofstock'') 5 90]
   = [sampleProduct (str ''d'') (str ''instock'') 4 7, sampleProduct (str ''c'') (str ''instock'') 4 2,
      sampleProduct (str ''b'') (str ''instock'') 3 10, sampleProduct (str ''a'') (str ''outofstock'') 5 90]
   \<and> (0::nat) < 2
   \<and> prod_stockStatus (prioritize [sampleProduct (str ''a'') (str ''outofstock'') 5 90, sampleProduct (str ''b'') (str ''instock'') 3 10,
               sampleProduct (str ''c'') (str ''instock'') 4 2, sampleProduct (str ''d'') (str ''instock'') 4 7] ! 2) = str ''instock''
   \<and> prod_stockStatus (prioritize [sampleProduct (str ''a'') (str ''outofstock'') 5 90, sampleProduct (str ''b'') (str ''instock'') 3 10,
               sampleProduct (str ''c'') (str ''instock'') 4 2, sampleProduct (str ''d'') (str ''instock'') 4 7] ! 0) = str ''instock''"
proof -
  let ?xs = "[sampleProduct (str ''a'') (str ''outofstock'') 5 90, sampleProduct (str ''b'') (str ''instock'') 3 10,
               sampleProduct (str ''c'') (str ''instock'') 4 2, sampleProduct (str ''d'') (str ''instock'') 4 7]"
  note idem = ranking_idempotent_stock_first [of ?xs, THEN conjunct1]
  note stock = ranking_idempotent_stock_first [of ?xs, THEN conjunct2, THEN conjunct2, THEN conjunct2,
      rule_format, of 0 2]
  have j: "prod_stockStatus (prioritize ?xs ! 2) = str ''instock''"
    unfolding sample_ranking by (simp add: sampleProduct_def)
  have "prod_stockStatus (prioritize ?xs ! 0) = str ''instock''"
    using stock j by (simp add: length_prioritize)
  then show ?thesis using idem j unfolding sample_ranking by simp
qed

section \<open>Properties of the session context\<close>

lemma buildConversationContext_history:
  "ctx_previousMessages (buildConversationContext e request) =
     (case requestHistory request of
        Some h \<Rightarrow> h
      | None \<Rightarrow> (case cacheGetContext e (str ''conversation_context:'' @ req_sessionId request) of
                   Some cached \<Rightarrow> ctx_previousMessages cached
                 | None \<Rightarrow> []))"
  unfolding buildConversationContext_def Let_def initialContext_def
  by (simp split: option.splits)

text \<open>
  Claim C8, as stated, fails: a request that supplies an empty history replaces the cached
  transcript by the empty one. Here the cache holds a context with one message, the request
  carries the history \<open>[]\<close>, and the context that is built has no message left.
\<close>

theorem context_empty_history_counterexample:
  "requestHistory (sampleRequest (str ''hello again'')) = Some []
   \<and> cacheGetContext
        (failingEnv\<lparr>cacheGetContext := (\<lambda>key. Some (sampleContext\<lparr>ctx_previousMessages :=
            [\<lparr>msg_type = str ''user'', msg_content = str ''hello''\<rparr>]\<rparr>))\<rparr>)
        (str ''conversation_context:'' @ req_sessionId (sampleRequest (str ''hello again'')))
      = Some (sampleContext\<lparr>ctx_previousMessages := [\<lparr>msg_type = str ''user'', msg_content = str ''hello''\<rparr>]\<rparr>)
   \<and> ctx_previousMessages
        (sampleContext\<lparr>ctx_previousMessages := [\<lparr>msg_type = str ''user'', msg_content = str ''hello''\<rparr>]\<rparr>)
      = [\<lparr>msg_type = str ''user'', msg_content = str ''hello''\<rparr>]
   \<and> ctx_previousMessages
        (buildConversationContext
           (failingEnv\<lparr>cacheGetContext := (\<lambda>key. Some (sampleContext\<lparr>ctx_previousMessages :=
              [\<lparr>msg_type = str ''user'', msg_content = str ''hello''\<rparr>]\<rparr>))\<rparr>)
           (sampleRequest (str ''hello again'')))
      = []"
  by (simp add: buildConversationContext_history requestHistory_def sampleRequest_def failingEnv_def)

text \<open>
  Claim C8, amended. \<open>buildConversationContext\<close> overwrites \<open>previousMessages\<close> with the
  caller-supplied history exactly when the request supplies a history, empty or not; when
  the request supplies none, the cached transcript is left in place (and a session absent
  from the cache starts with the empty transcript).
\<close>

theorem context_history_supplied:
  "ctx_previousMessages (buildConversationContext e request) =
     (case requestHistory request of
        Some h \<Rightarrow> h
      | None \<Rightarrow> (case cacheGetContext e (str ''conversation_context:'' @ req_sessionId request) of
                   Some cached \<Rightarrow> ctx_previousMessages cached
                 | None \<Rightarrow> []))"
  by (rule buildConversationContext_history)

section \<open>Properties of the knowledge retriever\<close>

lemma uniqueBy_props:
  "distinct (map f (uniqueBy f seen xs))
   \<and> f ` set (uniqueBy f seen xs) = f ` set xs - set seen"
  by (induction f seen xs rule: uniqueBy.induct) auto

lemma toNodes_empty: "(toNodes e products = []) = (products = [])"
  by (auto simp: toNodes_def)

text \<open>
  Claim C7. On a cache miss, when the text search over the published catalog returns no
  product and the site has at least one published product, \<open>getProductKnowledge\<close> returns
  the whole published catalog as knowledge nodes: one product node per catalog product,
  in catalog order, followed by one category node per distinct category. On a cache miss it
  returns the empty list only when the published catalog is empty or a retrieval call threw.
\<close>

theorem retriever_falls_back_to_catalog:
  assumes "cacheGetNodes e (knowledgeCacheKey e query siteId) = None"
  shows "(\<forall>catalog. \<not> isRequestingAllProducts query
            \<and> searchProductsDb e siteId (Some query) publishFilter = Inr []
            \<and> findBySite e siteId = Inr catalog \<and> catalog \<noteq> []
          \<longrightarrow> getProductKnowledge e query siteId \<noteq> []
              \<and> (\<exists>categories.
                    getProductKnowledge e query siteId
                      = map (productNode e) catalog @ map categoryNode categories
                    \<and> distinct categories
                    \<and> set categories = (\<Union>p \<in> set catalog. set (prod_categories p))))
         \<and> (getProductKnowledge e query siteId = []
              \<longrightarrow> findBySite e siteId = Inr []
                  \<or> (\<exists>error. getProductKnowledgeTry e query siteId = Inl error))"
proof (intro conjI allI impI)
  fix catalog
  assume h: "\<not> isRequestingAllProducts query
            \<and> searchProductsDb e siteId (Some query) publishFilter = Inr []
            \<and> findBySite e siteId = Inr catalog \<and> catalog \<noteq> []"
  have r: "getProductKnowledge e query siteId = toNodes e catalog"
    using assms h by (simp add: getProductKnowledge_def getProductKnowledgeTry_def)
  show "getProductKnowledge e query siteId \<noteq> []"
    using h r by (simp add: toNodes_empty)
  let ?cs = "uniqueBy id [] (concat (map prod_categories catalog))"
  have "distinct ?cs" using uniqueBy_props [of id "[]"] by (metis list.map_id)
  moreover have "set ?cs = (\<Union>p \<in> set catalog. set (prod_categories p))"
    using uniqueBy_props [of id "[]" "concat (map prod_categories catalog)"] by simp
  ultimately show "\<exists>categories.
                    getProductKnowledge e query siteId
                      = map (productNode e) catalog @ map categoryNode categories
                    \<and> distinct categories
                    \<and> set categories = (\<Union>p \<in> set catalog. set (prod_categories p))"
    using r unfolding toNodes_def by blast
next
  assume empty: "getProductKnowledge e query siteId = []"
  show "findBySite e siteId = Inr []
          \<or> (\<exists>error. getProductKnowledgeTry e query siteId = Inl error)"
  proof (cases "getProductKnowledgeTry e query siteId")
    case (Inl error)
    then show ?thesis by blast
  next
    case (Inr nodes)
    then have "nodes = []" using empty by (simp add: getProductKnowledge_def)
    then have "findBySite e siteId = Inr []"
      using Inr assms unfolding getProductKnowledgeTry_def
      by (auto simp: toNodes_empty split: sum.splits if_splits)
    then show ?thesis by blast
  qed
qed

theorem retriever_falls_back_to_catalog_witness:
  "\<not> isRequestingAllProducts (str ''red widget'')
   \<and> getProductKnowledge
        (failingEnv\<lparr>searchProductsDb := (\<lambda>siteId query filters. Inr []),
                     findBySite := (\<lambda>siteId. Inr [sampleProduct (str ''a'') (str ''instock'') 4 7])\<rparr>)
        (str ''red widget'') (str ''S1'') \<noteq> []"
proof -
  let ?e = "failingEnv\<lparr>searchProductsDb := (\<lambda>siteId query filters. Inr []),
                       findBySite := (\<lambda>siteId. Inr [sampleProduct (str ''a'') (str ''instock'') 4 7])\<rparr>"
  have miss: "cacheGetNodes ?e (knowledgeCacheKey ?e (str ''red widget'') (str ''S1'')) = None"
    by (simp add: failingEnv_def)
  have q: "\<not> isRequestingAllProducts (str ''red widget'')" by code_simp
  have h: "\<not> isRequestingAllProducts (str ''red widget'')
           \<and> searchProductsDb ?e (str ''S1'') (Some (str ''red widget'')) publishFilter = Inr []
           \<and> findBySite ?e (str ''S1'') = Inr [sampleProduct (str ''a'') (str ''instock'') 4 7]
           \<and> [sampleProduct (str ''a'') (str ''instock'') 4 7] \<noteq> []"
    using q by (simp add: failingEnv_def)
  note fallback = retriever_falls_back_to_catalog [OF miss, THEN conjunct1, rule_format, OF h]
  show ?thesis using q fallback by blast
qed

section \<open>Properties of the enhancement policy\<close>

text \<open>What \<open>generateAIResponse\<close> hands to \<open>enhanceResponse\<close>: no products, no coupons, no end flag.\<close>

lemma generated_fields:
  "generateAIResponse e request context0 analysis = Inr (response, context) \<Longrightarrow>
   resp_products response = None \<and> resp_coupons response = None
   \<and> resp_shouldEndConversation response = None
   \<and> context = context0\<lparr>ctx_productKnowledge :=
         Some (getProductKnowledge e (req_message request) (ctx_siteId context0))\<rparr>"
  unfolding generateAIResponse_def Let_def
  by (auto split: sum.splits)

lemma enhance_inventory:
  "isInventoryQuery query \<Longrightarrow>
   enhanceResponse e response context analysis query =
     (case countDocuments e (ctx_siteId context) of
        Inl error \<Rightarrow> response
      | Inr totalProducts \<Rightarrow>
          response\<lparr>resp_metadata :=
            Some ((case resp_metadata response of Some m \<Rightarrow> m | None \<Rightarrow> emptyMetadata)
                    \<lparr>md_totalProductCount := Some totalProducts\<rparr>)\<rparr>)"
  by (simp add: enhanceResponse_def enhanceResponseTry_def split: sum.splits)

lemma attachProducts_result:
  "attachProducts e enhanced context analysis query = Inr r \<Longrightarrow>
   r = enhanced
   \<or> (\<exists>products. r = enhanced\<lparr>resp_products := Some (map toSummary (take (maxProducts query) products))\<rparr>)"
  unfolding attachProducts_def Let_def by (auto split: sum.splits if_splits)

lemma policy_steps:
  "enhanceResponseTry e response context analysis query = Inr r \<Longrightarrow> \<not> isInventoryQuery query \<Longrightarrow>
   \<exists>enhanced. (enhanced = response
        \<or> (\<exists>products. enhanced = response\<lparr>resp_products :=
                Some (map toSummary (take (maxProducts query) products))\<rparr>))
      \<and> r = withEndFlag (withCoupons e enhanced context analysis) analysis"
  unfolding enhanceResponseTry_def
  by (auto split: sum.splits if_splits dest: attachProducts_result)

lemma products_of_steps:
  "resp_products (withEndFlag (withCoupons e enhanced context analysis) analysis) = resp_products enhanced"
  by (simp add: withEndFlag_def withCoupons_def)

lemma coupons_of_steps:
  "resp_coupons (withEndFlag (withCoupons e enhanced context analysis) analysis) =
     (if an_intent analysis = str ''purchase_intent'' \<and> an_purchaseReadiness analysis = str ''ready_to_buy''
      then Some (fst (generateCouponIfEligible e context analysis))
      else resp_coupons enhanced)"
  by (simp add: withEndFlag_def withCoupons_def)

lemma message_of_steps:
  "resp_message (withEndFlag (withCoupons e enhanced context analysis) analysis) = resp_message enhanced"
  by (simp add: withEndFlag_def withCoupons_def)

lemma enhance_cases:
  "enhanceResponse e response context analysis query = response
   \<or> (isInventoryQuery query
      \<and> (\<exists>totalProducts. enhanceResponse e response context analysis query =
            response\<lparr>resp_metadata :=
              Some ((case resp_metadata response of Some m \<Rightarrow> m | None \<Rightarrow> emptyMetadata)
                      \<lparr>md_totalProductCount := Some totalProducts\<rparr>)\<rparr>))
   \<or> (\<not> isInventoryQuery query
      \<and> (\<exists>enhanced. (enhanced = response
              \<or> (\<exists>products. enhanced = response\<lparr>resp_products :=
                    Some (map toSummary (take (maxProducts query) products))\<rparr>))
            \<and> enhanceResponse e response context analysis query
                = withEndFlag (withCoupons e enhanced context analysis) analysis))"
proof (cases "isInventoryQuery query")
  case True
  then show ?thesis by (auto simp: enhance_inventory split: sum.splits)
next
  case False
  show ?thesis
  proof (cases "enhanceResponseTry e response context analysis query")
    case (Inl error)
    then show ?thesis by (simp add: enhanceResponse_def)
  next
    case (Inr r)
    then have "enhanceResponse e response context analysis query = r"
      by (simp add: enhanceResponse_def)
    then show ?thesis using policy_steps [OF Inr False] False by blast
  qed
qed

lemma enhance_message:
  "resp_message (enhanceResponse e response context analysis query) = resp_message response"
  using enhance_cases [of e response "context" analysis query]
  by (auto simp: message_of_steps)

lemma enhance_products:
  "resp_products (enhanceResponse e response context analysis query) = resp_products response
   \<or> (\<exists>products. resp_products (enhanceResponse e response context analysis query)
         = Some (map toSummary (take (maxProducts query) products)))"
  using enhance_cases [of e response "context" analysis query]
  by (auto simp: products_of_steps)

lemma enhance_coupons:
  "resp_coupons (enhanceResponse e response context analysis query) = resp_coupons response
   \<or> (an_intent analysis = str ''purchase_intent'' \<and> an_purchaseReadiness analysis = str ''ready_to_buy''
      \<and> resp_coupons (enhanceResponse e response context analysis query)
          = Some (fst (generateCouponIfEligible e context analysis)))"
  using enhance_cases [of e response "context" analysis query]
  by (auto simp: coupons_of_steps split: if_splits)

lemma issued_coupons:
  "fst (generateCouponIfEligible e context analysis) \<noteq> [] \<Longrightarrow>
   \<exists>eligibility coupon.
      checkCouponEligibility e (ctx_sessionId context) (ctx_siteId context) (ctx_userId context) = Inr eligibility
      \<and> el_eligible eligibility
      \<and> fst (generateCouponIfEligible e context analysis) = [coupon]
      \<and> generateCouponForSession e (ctx_sessionId context) (ctx_siteId context)
           (CouponParams (eligibleCouponParams eligibility)) = Inr (Some coupon)"
  unfolding generateCouponIfEligible_def Let_def
  by (auto split: sum.splits if_splits option.splits)

lemma inventory_query_sample: "isInventoryQuery (str ''how many laptops do you have'')"
  by code_simp

text \<open>The same with a no-break space between the words, which \<open>\s\<close> matches.\<close>

lemma inventory_query_nbsp: "isInventoryQuery (str ''how many'' @ [160] @ str ''laptops'')"
  by code_simp

text \<open>
  Claim C2, as stated, fails when the catalog count throws: the query matches the
  inventory-count pattern, the \<open>catch\<close> of \<open>enhanceResponse\<close> returns the generated
  response as it was, and no total is attached.
\<close>

theorem inventory_total_counterexample:
  "isInventoryQuery (str ''how many laptops do you have'')
   \<and> enhanceResponse failingEnv (sampleResponse (str ''product_inquiry'')) sampleContext
        (sampleAnalysis (str ''product_inquiry'') (str ''researching'')) (str ''how many laptops do you have'')
      = sampleResponse (str ''product_inquiry'')
   \<and> map_option md_totalProductCount (resp_metadata (sampleResponse (str ''product_inquiry''))) = Some None"
  using inventory_query_sample
  by (simp add: enhance_inventory failingEnv_def sampleResponse_def emptyMetadata_def)

text \<open>
  Claim C2, amended. For every request whose query matches the inventory-count pattern,
  \<open>enhanceResponse\<close> attaches no product list. When the count of published products for the
  site succeeds, the returned response is the generated one with that total in its metadata
  and nothing else added; when the count throws, the generated response is returned unchanged.
\<close>

theorem inventory_short_circuit:
  assumes "isInventoryQuery query"
  shows "resp_products (enhanceResponse e response context analysis query) = resp_products response
     \<and> (\<forall>totalProducts. countDocuments e (ctx_siteId context) = Inr totalProducts \<longrightarrow>
          enhanceResponse e response context analysis query =
            response\<lparr>resp_metadata :=
              Some ((case resp_metadata response of Some m \<Rightarrow> m | None \<Rightarrow> emptyMetadata)
                      \<lparr>md_totalProductCount := Some totalProducts\<rparr>)\<rparr>)
     \<and> (\<forall>error. countDocuments e (ctx_siteId context) = Inl error \<longrightarrow>
          enhanceResponse e response context analysis query = response)"
  using assms by (auto simp: enhance_inventory split: sum.splits)

theorem inventory_short_circuit_witness:
  "isInventoryQuery (str ''how many'' @ [160] @ str ''laptops'')
   \<and> resp_products (enhanceResponse (failingEnv\<lparr>countDocuments := (\<lambda>siteId. Inr 20)\<rparr>)
        (sampleResponse (str ''product_inquiry'')) sampleContext
        (sampleAnalysis (str ''product_inquiry'') (str ''researching'')) (str ''how many'' @ [160] @ str ''laptops'')) = None
   \<and> map_option md_totalProductCount
        (resp_metadata (enhanceResponse (failingEnv\<lparr>countDocuments := (\<lambda>siteId. Inr 20)\<rparr>)
           (sampleResponse (str ''product_inquiry'')) sampleContext
           (sampleAnalysis (str ''product_inquiry'') (str ''researching'')) (str ''how many'' @ [160] @ str ''laptops'')))
      = Some (Some 20)"
proof -
  let ?e = "failingEnv\<lparr>countDocuments := (\<lambda>siteId. Inr 20)\<rparr>"
  let ?q = "str ''how many'' @ [160] @ str ''laptops''"
  have c: "countDocuments ?e (ctx_siteId sampleContext) = Inr 20" by (simp add: failingEnv_def)
  note facts = inventory_short_circuit [OF inventory_query_nbsp, of ?e "sampleResponse (str ''product_inquiry'')"
      sampleContext "sampleAnalysis (str ''product_inquiry'') (str ''researching'')"]
  note total = facts [THEN conjunct2, THEN conjunct1, rule_format, OF c]
  show ?thesis using inventory_query_nbsp facts [THEN conjunct1] total
    by (simp add: sampleResponse_def)
qed

text \<open>
  Claim C9. On the inventory-count path \<open>enhanceResponse\<close> returns before the coupon and
  termination steps: the returned response is the generated one, up to the total product
  count in its metadata. Its message, intent, confidence, sentiment, actions and products
  are those of the generated response, no coupon is attached and the end-of-conversation
  flag is not set, whatever the classified intent and purchase readiness.
\<close>

theorem inventory_frame:
  assumes "isInventoryQuery query"
  shows "(enhanceResponse e response context analysis query = response
          \<or> (\<exists>totalProducts. enhanceResponse e response context analysis query =
                response\<lparr>resp_metadata :=
                  Some ((case resp_metadata response of Some m \<Rightarrow> m | None \<Rightarrow> emptyMetadata)
                          \<lparr>md_totalProductCount := Some totalProducts\<rparr>)\<rparr>))
     \<and> resp_message (enhanceResponse e response context analysis query) = resp_message response
     \<and> resp_intent (enhanceResponse e response context analysis query) = resp_intent response
     \<and> resp_confidence (enhanceResponse e response context analysis query) = resp_confidence response
     \<and> resp_sentiment (enhanceResponse e response context analysis query) = resp_sentiment response
     \<and> resp_actions (enhanceResponse e response context analysis query) = resp_actions response
     \<and> resp_products (enhanceResponse e response context analysis query) = resp_products response
     \<and> resp_coupons (enhanceResponse e response context analysis query) = resp_coupons response
     \<and> resp_shouldEndConversation (enhanceResponse e response context analysis query)
         = resp_shouldEndConversation response"
  using assms by (auto simp: enhance_inventory split: sum.splits)

theorem inventory_frame_witness:
  "isInventoryQuery (str ''how many'' @ [160] @ str ''laptops'')
   \<and> resp_coupons (enhanceResponse
        (failingEnv\<lparr>countDocuments := (\<lambda>siteId. Inr 20),
                     checkCouponEligibility := (\<lambda>sessionId siteId userId.
                        Inr \<lparr>el_eligible = True, el_maxDiscount = 25\<rparr>),
                     generateCouponForSession := (\<lambda>sessionId siteId params. Inr (Some (Coupon (str ''SAVE15''))))\<rparr>)
        (sampleResponse (str ''purchase_intent'')) sampleContext
        (sampleAnalysis (str ''purchase_intent'') (str ''ready_to_buy'')) (str ''how many'' @ [160] @ str ''laptops'')) = None
   \<and> resp_shouldEndConversation (enhanceResponse failingEnv
        (sampleResponse (str ''goodbye'')) sampleContext
        (sampleAnalysis (str ''goodbye'') (str ''researching'')) (str ''how many'' @ [160] @ str ''laptops'')) = None"
  using inventory_query_nbsp
    inventory_frame [OF inventory_query_nbsp,
      of "failingEnv\<lparr>countDocuments := (\<lambda>siteId. Inr 20),
                     checkCouponEligibility := (\<lambda>sessionId siteId userId.
                        Inr \<lparr>el_eligible = True, el_maxDiscount = 25\<rparr>),
                     generateCouponForSession := (\<lambda>sessionId siteId params. Inr (Some (Coupon (str ''SAVE15''))))\<rparr>"
         "sampleResponse (str ''purchase_intent'')" sampleContext "sampleAnalysis (str ''purchase_intent'') (str ''ready_to_buy'')"]
    inventory_frame [OF inventory_query_nbsp,
      of failingEnv "sampleResponse (str ''goodbye'')" sampleContext "sampleAnalysis (str ''goodbye'') (str ''researching'')"]
  by (simp add: sampleResponse_def)

lemma show_all_nbsp_cap:
  "isShowAllQuery (str ''show'' @ [160] @ str ''all laptops from asus'')
   \<and> maxProducts (str ''show'' @ [160] @ str ''all laptops from asus'') = 12"
  by code_simp

lemma show_all_brand_sample:
  "isShowAllQuery (str ''show all laptops from asus'') \<and> isSpecificProductQuery (str ''show all laptops from asus'')
   \<and> \<not> isInventoryQuery (str ''show all laptops from asus'')"
  by code_simp

lemma productNode_type: "meta_type (node_metadata (productNode e p)) = str ''product''"
  by (simp add: productNode_def)

lemma productNode_id: "meta_id (node_metadata (productNode e p)) = Some (prod_id p)"
  by (simp add: productNode_def)

lemma sampleProduct_id: "prod_id (sampleProduct i stock rating reviews) = i"
  by (simp add: sampleProduct_def)

lemma known_has: "hasProductKnowledge (knownProductsContext ids) = (ids \<noteq> [])"
  by (cases ids) (simp_all add: hasProductKnowledge_def knownProductsContext_def productNode_type)

lemma known_ids: "knowledgeProductIds (knownProductsContext ids) = filter (\<lambda>i. i \<noteq> []) ids"
  unfolding knowledgeProductIds_def knownProductsContext_def
  by (induction ids) (simp_all add: productNode_type productNode_id sampleProduct_id)

lemma catalog_fetch:
  "collectE (\<lambda>productId.
                    case findOne catalogEnv (Some productId) siteId of
                      Inl error \<Rightarrow> Inl error
                    | Inr None \<Rightarrow> Inr []
                    | Inr (Some product) \<Rightarrow> Inr [product]) ids
   = Inr (map (\<lambda>i. sampleProduct i (str ''instock'') 4 1) ids)"
  by (induction ids) (simp_all add: catalogEnv_def)

lemma sample_fetch:
  "attachProducts catalogEnv response (knownProductsContext [str ''a'', str ''b'', str ''c'', str ''d'']) analysis query
   = Inr (response\<lparr>resp_products :=
        Some (map toSummary (take (maxProducts query)
          (prioritize (map (\<lambda>i. sampleProduct i (str ''instock'') 4 1) [str ''a'', str ''b'', str ''c'', str ''d'']))))\<rparr>)"
  unfolding attachProducts_def known_has known_ids catalog_fetch by simp

text \<open>
  Claim C3, as stated, fails for a query that names a brand and also matches the
  "show all" pattern: the "show all" cap of 12 applies, and the attached list is longer
  than 3. Here four products are known; all four are attached.
\<close>

theorem product_cap_counterexample:
  "isSpecificProductQuery (str ''show all laptops from asus'')
   \<and> map_option length
        (resp_products (enhanceResponse catalogEnv (sampleResponse (str ''product_inquiry''))
           (knownProductsContext [str ''a'', str ''b'', str ''c'', str ''d''])
           (sampleAnalysis (str ''product_inquiry'') (str ''researching'')) (str ''show all laptops from asus'')))
      = Some 4"
  using show_all_brand_sample
  by (simp add: enhanceResponse_def enhanceResponseTry_def shouldIncludeProducts_def sample_fetch
      products_of_steps maxProducts_def length_prioritize)

text \<open>
  Claim C3, amended. Whenever \<open>enhanceResponse\<close> attaches a product list, its length is
  at most 12 for a query matching the "show all" pattern, at most 3 for a query that names a
  known brand or model and does not match the "show all" pattern, and at most 6 otherwise.
\<close>

theorem product_cap:
  assumes "resp_products response = None"
    and "resp_products (enhanceResponse e response context analysis query) = Some products"
  shows "length products \<le>
           (if isShowAllQuery query then 12 else if isSpecificProductQuery query then 3 else 6)"
proof -
  obtain candidates where
    "products = map toSummary (take (maxProducts query) candidates)"
    using assms enhance_products [of e response "context" analysis query] by auto
  then show ?thesis by (simp add: maxProducts_def)
qed

lemma brand_sample:
  "\<not> isShowAllQuery (str ''is the asus zenbook any good'') \<and> isSpecificProductQuery (str ''is the asus zenbook any good'')
   \<and> \<not> isInventoryQuery (str ''is the asus zenbook any good'')"
  by code_simp

theorem product_cap_witness:
  "resp_products (sampleResponse (str ''product_inquiry'')) = None
   \<and> map_option length
        (resp_products (enhanceResponse catalogEnv (sampleResponse (str ''product_inquiry''))
           (knownProductsContext [str ''a'', str ''b'', str ''c'', str ''d''])
           (sampleAnalysis (str ''product_inquiry'') (str ''researching'')) (str ''is the asus zenbook any good'')))
      = Some 3"
proof -
  let ?r = "enhanceResponse catalogEnv (sampleResponse (str ''product_inquiry''))
           (knownProductsContext [str ''a'', str ''b'', str ''c'', str ''d''])
           (sampleAnalysis (str ''product_inquiry'') (str ''researching'')) (str ''is the asus zenbook any good'')"
  have none: "resp_products (sampleResponse (str ''product_inquiry'')) = None"
    by (simp add: sampleResponse_def)
  have len: "map_option length (resp_products ?r) = Some 3"
    using brand_sample
    by (simp add: enhanceResponse_def enhanceResponseTry_def shouldIncludeProducts_def sample_fetch
        products_of_steps maxProducts_def length_prioritize)
  then obtain products where p: "resp_products ?r = Some products" by auto
  have "length products \<le> 3"
    using product_cap [OF none p] brand_sample by simp
  then show ?thesis using none len by simp
qed

text \<open>
  Claim C5. A coupon is attached to the coupon list of the response only when the
  classified intent is purchase_intent, the purchase readiness is ready_to_buy and the
  coupon collaborator reports eligibility; in every other case the coupon list is absent or
  empty. An attached coupon is the single coupon the collaborator issued in answer to the
  request for a percentage coupon of amount \<open>min maxDiscount 15\<close>, at most 15, valid
  7 days. (Coupons inside \<open>generate_coupon\<close> actions are another field; see C10.)
\<close>

theorem coupon_only_when_eligible:
  assumes "resp_coupons response = None"
    and "resp_coupons (enhanceResponse e response context analysis query) = Some coupons"
    and "coupons \<noteq> []"
  shows "an_intent analysis = str ''purchase_intent''
     \<and> an_purchaseReadiness analysis = str ''ready_to_buy''
     \<and> (\<exists>eligibility coupon params.
           checkCouponEligibility e (ctx_sessionId context) (ctx_siteId context) (ctx_userId context)
             = Inr eligibility
           \<and> el_eligible eligibility
           \<and> coupons = [coupon]
           \<and> generateCouponForSession e (ctx_sessionId context) (ctx_siteId context)
                 (CouponParams params) = Inr (Some coupon)
           \<and> cp_discountType params = Some (str ''percentage'')
           \<and> cp_amount params = Some (min (el_maxDiscount eligibility) 15)
           \<and> min (el_maxDiscount eligibility) 15 \<le> 15
           \<and> cp_validityDays params = Some 7)"
proof -
  have c: "an_intent analysis = str ''purchase_intent'' \<and> an_purchaseReadiness analysis = str ''ready_to_buy''
      \<and> fst (generateCouponIfEligible e context analysis) = coupons"
    using assms enhance_coupons [of e response "context" analysis query] by auto
  then have "fst (generateCouponIfEligible e context analysis) \<noteq> []" using assms(3) by simp
  from issued_coupons [OF this] obtain eligibility coupon where
    "checkCouponEligibility e (ctx_sessionId context) (ctx_siteId context) (ctx_userId context) = Inr eligibility"
    "el_eligible eligibility"
    "fst (generateCouponIfEligible e context analysis) = [coupon]"
    "generateCouponForSession e (ctx_sessionId context) (ctx_siteId context)
           (CouponParams (eligibleCouponParams eligibility)) = Inr (Some coupon)"
    by blast
  then have "checkCouponEligibility e (ctx_sessionId context) (ctx_siteId context) (ctx_userId context)
             = Inr eligibility
           \<and> el_eligible eligibility
           \<and> coupons = [coupon]
           \<and> generateCouponForSession e (ctx_sessionId context) (ctx_siteId context)
                (CouponParams (eligibleCouponParams eligibility)) = Inr (Some coupon)
           \<and> cp_discountType (eligibleCouponParams eligibility) = Some (str ''percentage'')
           \<and> cp_amount (eligibleCouponParams eligibility) = Some (min (el_maxDiscount eligibility) 15)
           \<and> min (el_maxDiscount eligibility) 15 \<le> 15
           \<and> cp_validityDays (eligibleCouponParams eligibility) = Some 7"
    using c by (simp add: eligibleCouponParams_def)
  then show ?thesis using c by blast
qed

lemma purchase_sample:
  "\<not> isInventoryQuery (str ''i will take it'') \<and> \<not> isProductRequest (str ''i will take it'')
   \<and> \<not> isShowAllQuery (str ''i will take it'') \<and> \<not> isSpecificProductQuery (str ''i will take it'')"
  by code_simp

lemma no_relevant_products:
  "ent_products (an_entities analysis) = [] \<Longrightarrow> ent_categories (an_entities analysis) = []
   \<Longrightarrow> ctx_userInterests context = [] \<Longrightarrow> an_intent analysis \<noteq> str ''unknown''
   \<Longrightarrow> an_intent analysis \<noteq> str ''product_inquiry''
   \<Longrightarrow> getRelevantProducts e analysis context = []"
  by (simp add: getRelevantProducts_def getRelevantProductsTry_def)

lemma attach_nothing:
  "\<not> hasProductKnowledge context \<Longrightarrow> getRelevantProducts e analysis context = []
   \<Longrightarrow> attachProducts e response context analysis query = Inr response"
  by (simp add: attachProducts_def)

theorem coupon_only_when_eligible_witness:
  "resp_coupons (sampleResponse (str ''purchase_intent'')) = None
   \<and> resp_coupons (enhanceResponse
        (failingEnv\<lparr>checkCouponEligibility := (\<lambda>sessionId siteId userId.
                        Inr \<lparr>el_eligible = True, el_maxDiscount = 25\<rparr>),
                     generateCouponForSession := (\<lambda>sessionId siteId params.
                        Inr (case params of
                               CouponParams p \<Rightarrow>
                                 if cp_amount p = Some 15 then Some (Coupon (str ''SAVE15'')) else None
                             | CallArguments a \<Rightarrow> None))\<rparr>)
        (sampleResponse (str ''purchase_intent'')) sampleContext
        (sampleAnalysis (str ''purchase_intent'') (str ''ready_to_buy'')) (str ''i will take it''))
      = Some [Coupon (str ''SAVE15'')]
   \<and> [Coupon (str ''SAVE15'')] \<noteq> []
   \<and> an_intent (sampleAnalysis (str ''purchase_intent'') (str ''ready_to_buy'')) = str ''purchase_intent''"
proof -
  define e where "e = failingEnv\<lparr>checkCouponEligibility := (\<lambda>sessionId siteId userId.
                        Inr \<lparr>el_eligible = True, el_maxDiscount = 25\<rparr>),
                     generateCouponForSession := (\<lambda>sessionId siteId params.
                        Inr (case params of
                               CouponParams p \<Rightarrow>
                                 if cp_amount p = Some 15 then Some (Coupon (str ''SAVE15'')) else None
                             | CallArguments a \<Rightarrow> None))\<rparr>"
  define a where "a = sampleAnalysis (str ''purchase_intent'') (str ''ready_to_buy'')"
  have a_facts: "an_intent a = str ''purchase_intent''" "an_purchaseReadiness a = str ''ready_to_buy''"
    "ent_products (an_entities a) = []" "ent_categories (an_entities a) = []"
    by (simp_all add: a_def sampleAnalysis_def)
  have none: "resp_coupons (sampleResponse (str ''purchase_intent'')) = None"
    by (simp add: sampleResponse_def)
  have no_knowledge: "\<not> hasProductKnowledge sampleContext"
    by (simp add: hasProductKnowledge_def sampleContext_def initialContext_def)
  have no_relevant: "getRelevantProducts e a sampleContext = []"
    by (rule no_relevant_products) (simp_all add: a_facts sampleContext_def initialContext_def)
  have attach: "attachProducts e (sampleResponse (str ''purchase_intent'')) sampleContext a (str ''i will take it'')
      = Inr (sampleResponse (str ''purchase_intent''))"
    by (rule attach_nothing [OF no_knowledge no_relevant])
  have issued: "fst (generateCouponIfEligible e sampleContext a) = [Coupon (str ''SAVE15'')]"
    by (simp add: generateCouponIfEligible_def eligibleCouponParams_def e_def failingEnv_def)
  have got: "resp_coupons (enhanceResponse e (sampleResponse (str ''purchase_intent'')) sampleContext a
        (str ''i will take it'')) = Some [Coupon (str ''SAVE15'')]"
    using purchase_sample
    by (simp add: enhanceResponse_def enhanceResponseTry_def attach coupons_of_steps issued a_facts)
  have ne: "[Coupon (str ''SAVE15'')] \<noteq> []" by simp
  from coupon_only_when_eligible [OF none got ne]
  have "an_intent a = str ''purchase_intent''" by blast
  then show ?thesis using none got unfolding e_def a_def by simp
qed

section \<open>Properties of the text-pattern function calls\<close>

text \<open>With a Claude model and no native function call, the actions of the reply are those parsed from its text.\<close>

lemma text_mode_actions:
  assumes "str_includes (modelName e) (str ''claude'')"
    and "generateAIResponse e request context0 analysis = Inr (response, ctx)"
  shows "\<exists>params completion.
      chatCompletion e params = Inr completion
      \<and> (comp_function_call completion = None \<longrightarrow> truthyText (comp_content completion) \<longrightarrow>
           resp_actions response
             = fst (parseFunctionCallsFromContent e (the (comp_content completion)) ctx))"
proof -
  from assms(2) obtain params completion where c: "chatCompletion e params = Inr completion"
    and r: "resp_actions response =
      (case comp_function_call completion of
         Some call \<Rightarrow> fst (handleFunctionCall e call ctx)
       | None \<Rightarrow>
           if str_includes (modelName e) (str ''claude'') \<and> truthyText (comp_content completion)
           then fst (parseFunctionCallsFromContent e (the (comp_content completion)) ctx)
           else [])"
    unfolding generateAIResponse_def Let_def by (auto split: sum.splits)
  have h: "comp_function_call completion = None \<longrightarrow> truthyText (comp_content completion) \<longrightarrow>
           resp_actions response
             = fst (parseFunctionCallsFromContent e (the (comp_content completion)) ctx)"
    using r assms(1) by simp
  show ?thesis using c h by (intro exI [of _ params] exI [of _ completion] conjI)
qed

lemma text_coupon_request:
  "rx_test couponPattern content \<Longrightarrow>
   snd (parseFunctionCallsFromContent e content context)
     = [CouponRequest (ctx_sessionId context) (ctx_siteId context) (CouponParams textCouponParams)]"
  by (simp add: parseFunctionCallsFromContent_def Let_def)

lemma text_coupon_action:
  "rx_test couponPattern content \<Longrightarrow>
   generateCouponForSession e (ctx_sessionId context) (ctx_siteId context) (CouponParams textCouponParams)
     = Inr (Some coupon) \<Longrightarrow>
   GenerateCoupon coupon \<in> set (fst (parseFunctionCallsFromContent e content context))"
  by (simp add: parseFunctionCallsFromContent_def Let_def)

lemma searchProducts_ignores_eligibility:
  "searchProducts (e\<lparr>checkCouponEligibility := check\<rparr>) parameters siteId
     = searchProducts e parameters siteId"
  by (simp add: searchProducts_def Let_def)

lemma text_coupon_ignores_eligibility:
  "parseFunctionCallsFromContent (e\<lparr>checkCouponEligibility := check\<rparr>) content context
     = parseFunctionCallsFromContent e content context"
  by (simp add: parseFunctionCallsFromContent_def searchProducts_ignores_eligibility Let_def
      split: option.splits prod.splits sum.splits)

text \<open>
  Claim C10. In text-pattern mode, whenever the reply text matches
  \<open>/generate[_\s]coupon|discount|offer/i\<close>, \<open>parseFunctionCallsFromContent\<close> makes exactly
  one call to the coupon collaborator: the request to issue a percentage coupon of amount 10.
  It makes no eligibility check, its result does not depend on what the eligibility check
  would answer, and whenever the collaborator issues a coupon a \<open>generate_coupon\<close> action
  carrying it is emitted.
\<close>

theorem text_mode_coupon_unchecked:
  assumes "rx_test couponPattern content"
  shows "snd (parseFunctionCallsFromContent e content context)
           = [CouponRequest (ctx_sessionId context) (ctx_siteId context)
                (CouponParams \<lparr>cp_discountType = Some (str ''percentage''), cp_amount = Some 10,
                              cp_validityDays = None\<rparr>)]
     \<and> (\<forall>coupon. generateCouponForSession e (ctx_sessionId context) (ctx_siteId context)
                     (CouponParams \<lparr>cp_discountType = Some (str ''percentage''), cp_amount = Some 10,
                                   cp_validityDays = None\<rparr>) = Inr (Some coupon)
          \<longrightarrow> GenerateCoupon coupon \<in> set (fst (parseFunctionCallsFromContent e content context)))
     \<and> (\<forall>check. parseFunctionCallsFromContent (e\<lparr>checkCouponEligibility := check\<rparr>) content context
            = parseFunctionCallsFromContent e content context)"
  using assms text_coupon_request [of content e "context"] text_coupon_action [of content e "context"]
  by (simp add: textCouponParams_def text_coupon_ignores_eligibility)

lemma discount_sample: "rx_test couponPattern (str ''please generate'' @ [160] @ str ''coupon now'')"
  by code_simp

theorem text_mode_coupon_unchecked_witness:
  "rx_test couponPattern (str ''please generate'' @ [160] @ str ''coupon now'')
   \<and> fst (generateCouponIfEligible
        (failingEnv\<lparr>checkCouponEligibility := (\<lambda>sessionId siteId userId.
                        Inr \<lparr>el_eligible = False, el_maxDiscount = 0\<rparr>),
                     generateCouponForSession := (\<lambda>sessionId siteId params. Inr (Some (Coupon (str ''TEN''))))\<rparr>)
        sampleContext (sampleAnalysis (str ''purchase_intent'') (str ''ready_to_buy''))) = []
   \<and> GenerateCoupon (Coupon (str ''TEN''))
       \<in> set (fst (parseFunctionCallsFromContent
        (failingEnv\<lparr>checkCouponEligibility := (\<lambda>sessionId siteId userId.
                        Inr \<lparr>el_eligible = False, el_maxDiscount = 0\<rparr>),
                     generateCouponForSession := (\<lambda>sessionId siteId params. Inr (Some (Coupon (str ''TEN''))))\<rparr>)
        (str ''please generate'' @ [160] @ str ''coupon now'') sampleContext))"
proof -
  define e where "e = failingEnv\<lparr>checkCouponEligibility := (\<lambda>sessionId siteId userId.
                        Inr \<lparr>el_eligible = False, el_maxDiscount = 0\<rparr>),
                     generateCouponForSession := (\<lambda>sessionId siteId params. Inr (Some (Coupon (str ''TEN''))))\<rparr>"
  have rejected: "fst (generateCouponIfEligible e sampleContext (sampleAnalysis (str ''purchase_intent'') (str ''ready_to_buy''))) = []"
    by (simp add: generateCouponIfEligible_def e_def failingEnv_def)
  have issued: "generateCouponForSession e (ctx_sessionId sampleContext) (ctx_siteId sampleContext)
                     (CouponParams \<lparr>cp_discountType = Some (str ''percentage''), cp_amount = Some 10,
                                   cp_validityDays = None\<rparr>) = Inr (Some (Coupon (str ''TEN'')))"
    by (simp add: e_def failingEnv_def)
  note emitted = text_mode_coupon_unchecked [OF discount_sample, of e sampleContext,
      THEN conjunct2, THEN conjunct1, rule_format, OF issued]
  show ?thesis using discount_sample rejected emitted unfolding e_def by simp
qed

section \<open>Properties of the pipeline\<close>

lemma fallback_pool_nonempty: "\<forall>m \<in> set fallbackMessages. m \<noteq> []"
  by (simp add: fallbackMessages_def)

lemma fallback_index: "0 \<le> (r::real) \<Longrightarrow> r < 1 \<Longrightarrow> nat \<lfloor>r * 4\<rfloor> < 4"
proof -
  assume a: "0 \<le> r" "r < 1"
  have "r * 4 < 4" using a by simp
  then have "\<lfloor>r * 4\<rfloor> < 4" by (simp add: floor_less_iff)
  moreover have "0 \<le> \<lfloor>r * 4\<rfloor>" using a by simp
  ultimately show ?thesis by linarith
qed

lemma generated_message:
  "generateAIResponse e request context0 analysis = Inr (response, context) \<Longrightarrow>
   resp_message response \<noteq> []"
  unfolding generateAIResponse_def Let_def
  by (auto simp: truthyText_def apology_def split: sum.splits option.splits if_splits)

lemma generation_failure:
  "generateAIResponse e request context0 analysis = Inl error \<Longrightarrow>
   \<exists>params. chatCompletion e params = Inl error"
  unfolding generateAIResponse_def Let_def
  by (auto split: sum.splits)

lemma provider_down:
  "chatCompletion e = (\<lambda>params. Inl error) \<Longrightarrow>
   generateAIResponse e request context0 analysis = Inl error"
  by (simp add: generateAIResponse_def Let_def)

lemma uncaught_failure_is_provider:
  "processMessageTry e request = Inl error \<Longrightarrow> \<exists>params. chatCompletion e params = Inl error"
  unfolding processMessageTry_def Let_def
  by (auto split: sum.splits dest: generation_failure)

text \<open>
  Claim C1. For every request \<open>processMessage\<close> returns one response whose message is a
  non-empty string, whatever the collaborators do: a throw inside the pipeline is a value
  \<open>Inl\<close> of the \<open>try\<close> body, and the \<open>catch\<close> turns it into the fallback response. On
  such a failure the response has intent \<open>unknown\<close>, confidence 0.1, sentiment 0, no action,
  a message from the fixed pool of non-empty fallback strings, and metadata that marks it
  as a fallback and carries the message of the error. \<open>Math.random()\<close> lies in \<open>[0, 1)\<close>.
\<close>

theorem always_one_response:
  assumes "0 \<le> mathRandom e" and "mathRandom e < 1"
  shows "resp_message (processMessage e request) \<noteq> []
     \<and> (\<forall>error. processMessageTry e request = Inl error \<longrightarrow>
          processMessage e request =
            \<lparr>resp_message = fallbackMessages ! nat \<lfloor>mathRandom e * 4\<rfloor>,
             resp_intent = str ''unknown'',
             resp_confidence = 1 / 10,
             resp_sentiment = 0,
             resp_actions = [],
             resp_metadata = Some (emptyMetadata\<lparr>md_fallback := Some True,
                                                md_error := Some (errMessage error)\<rparr>),
             resp_products = None,
             resp_coupons = None,
             resp_shouldEndConversation = None\<rparr>
          \<and> resp_message (processMessage e request) \<in> set fallbackMessages)
     \<and> (\<forall>m \<in> set fallbackMessages. m \<noteq> [])"
proof (intro conjI allI impI)
  have len: "length fallbackMessages = 4" by (simp add: fallbackMessages_def)
  have pool: "fallbackMessages ! nat \<lfloor>mathRandom e * 4\<rfloor> \<in> set fallbackMessages"
    using fallback_index [OF assms] len by (simp add: nth_mem)
  show "resp_message (processMessage e request) \<noteq> []"
  proof (cases "processMessageTry e request")
    case (Inl error)
    then have "resp_message (processMessage e request) = fallbackMessages ! nat \<lfloor>mathRandom e * 4\<rfloor>"
      by (simp add: processMessage_def getFallbackResponse_def len)
    then show ?thesis using pool fallback_pool_nonempty by auto
  next
    case (Inr r)
    then obtain generated ctx where
      g: "generateAIResponse e request (buildConversationContext e request)
            (analyzeUserMessage e (req_message request) (buildConversationContext e request))
          = Inr (generated, ctx)"
      and r: "r = enhanceResponse e generated ctx
            (analyzeUserMessage e (req_message request) (buildConversationContext e request))
            (req_message request)"
      unfolding processMessageTry_def Let_def by (auto split: sum.splits)
    have "resp_message r = resp_message generated" using r by (simp add: enhance_message)
    then show ?thesis using Inr generated_message [OF g] by (simp add: processMessage_def)
  qed
  show "\<forall>m \<in> set fallbackMessages. m \<noteq> []" by (rule fallback_pool_nonempty)
  fix error
  assume f: "processMessageTry e request = Inl error"
  then show "processMessage e request =
            \<lparr>resp_message = fallbackMessages ! nat \<lfloor>mathRandom e * 4\<rfloor>,
             resp_intent = str ''unknown'',
             resp_confidence = 1 / 10,
             resp_sentiment = 0,
             resp_actions = [],
             resp_metadata = Some (emptyMetadata\<lparr>md_fallback := Some True,
                                                md_error := Some (errMessage error)\<rparr>),
             resp_products = None,
             resp_coupons = None,
             resp_shouldEndConversation = None\<rparr>"
    by (simp add: processMessage_def getFallbackResponse_def len)
  then show "resp_message (processMessage e request) \<in> set fallbackMessages"
    using pool by simp
qed

theorem always_one_response_witness:
  "(0::real) \<le> mathRandom failingEnv \<and> mathRandom failingEnv < 1
   \<and> processMessageTry failingEnv (sampleRequest (str ''hello'')) = Inl (Error (str ''provider down''))
   \<and> resp_message (processMessage failingEnv (sampleRequest (str ''hello'')))
      = str ''Let me help you find what you need. What specific product or information are you looking for today?''
   \<and> resp_intent (processMessage failingEnv (sampleRequest (str ''hello''))) = str ''unknown''
   \<and> map_option md_error (resp_metadata (processMessage failingEnv (sampleRequest (str ''hello''))))
      = Some (Some (str ''provider down''))"
proof -
  have lo: "0 \<le> mathRandom failingEnv" and hi: "mathRandom failingEnv < 1"
    by (simp_all add: failingEnv_def)
  have down: "chatCompletion failingEnv = (\<lambda>params. Inl (Error (str ''provider down'')))"
    by (simp add: failingEnv_def)
  have failed: "processMessageTry failingEnv (sampleRequest (str ''hello'')) = Inl (Error (str ''provider down''))"
    by (simp add: processMessageTry_def Let_def provider_down [OF down])
  have r: "mathRandom failingEnv = 1 / 2" by (simp add: failingEnv_def)
  have idx: "nat \<lfloor>mathRandom failingEnv * 4\<rfloor> = 2" unfolding r by simp
  note fallback = always_one_response [OF lo hi, of "sampleRequest (str ''hello'')",
      THEN conjunct2, THEN conjunct1, rule_format, OF failed, THEN conjunct1]
  have msg: "fallbackMessages ! 2
      = str ''Let me help you find what you need. What specific product or information are you looking for today?''"
    by (simp add: fallbackMessages_def)
  show ?thesis using lo hi failed unfolding fallback idx msg by simp
qed

end
